theory Spec2Isabelle
  imports Main "HOL-Library.Multiset"
begin

section \<open>The response of the state projection (app/main.py)\<close>

text \<open>
  The dictionaries \<open>get_state\<close> builds. A card is either \<open>{"hidden": True}\<close> or the
  visible entry with rank, suit and image URL; a score is \<open>None\<close>, the string \<open>"?"\<close> or
  a number. The waiting phase's player entries have no \<open>result\<close> key.
\<close>

datatype card_view = HiddenCard | VisibleCard string string string

fun hidden :: "card_view \<Rightarrow> bool" where
  "hidden HiddenCard = True"
| "hidden (VisibleCard r s u) = False"

datatype score_view = NoScore | QuestionMark | ScoreOf int

text \<open>
  The phase of a room is one of four string literals in the source:
  \<open>"waiting"\<close>, \<open>"player_turns"\<close>, \<open>"dealer_turn"\<close>, \<open>"results"\<close>.
\<close>

datatype Phase = Waiting | PlayerTurns | DealerTurn | Results

record player_view =
  name :: string
  score :: score_view
  cards :: "card_view list"
  stood :: bool
  resolved :: bool
  result :: "string option"

record dealer_view =
  score :: score_view
  cards :: "card_view list"

record RoomStateResponse =
  room_id :: string
  phase :: Phase
  current_player_index :: int
  your_player_index :: "int option"
  players :: "player_view list"
  dealer :: dealer_view
  can_start :: bool
  can_act :: bool
  results :: "(string \<times> string) list"

datatype error = HTTPException int string | ValueError string | IndexError | AttributeError

section \<open>Cards (enum.py, logic\_game.py)\<close>

datatype Suit = HEARTS | DIAMONDS | CLUBS | SPADES

datatype Rank = TWO | THREE | FOUR | FIVE | SIX | SEVEN | EIGHT | NINE | TEN
  | JACK | QUEEN | KING | ACE

text \<open>The \<open>.value\<close> of the two enumerations.\<close>

fun suit_value :: "Suit \<Rightarrow> string" where
  "suit_value HEARTS = ''Hearts''"
| "suit_value DIAMONDS = ''Diamonds''"
| "suit_value CLUBS = ''Clubs''"
| "suit_value SPADES = ''Spades''"

fun rank_value :: "Rank \<Rightarrow> string" where
  "rank_value TWO = ''2''"
| "rank_value THREE = ''3''"
| "rank_value FOUR = ''4''"
| "rank_value FIVE = ''5''"
| "rank_value SIX = ''6''"
| "rank_value SEVEN = ''7''"
| "rank_value EIGHT = ''8''"
| "rank_value NINE = ''9''"
| "rank_value TEN = ''10''"
| "rank_value JACK = ''J''"
| "rank_value QUEEN = ''Q''"
| "rank_value KING = ''K''"
| "rank_value ACE = ''A''"

text \<open>
  \<open>int(card.rank.value)\<close>: defined on the ranks whose value is a numeral. On J, Q, K and A
  Python's \<open>int\<close> raises; \<open>calculate_score\<close> never gets there, and the function is left
  unspecified on them.
\<close>

fun int_rank_value :: "Rank \<Rightarrow> int" where
  "int_rank_value TWO = 2"
| "int_rank_value THREE = 3"
| "int_rank_value FOUR = 4"
| "int_rank_value FIVE = 5"
| "int_rank_value SIX = 6"
| "int_rank_value SEVEN = 7"
| "int_rank_value EIGHT = 8"
| "int_rank_value NINE = 9"
| "int_rank_value TEN = 10"

text \<open>The iteration order of the enumerations (\<open>for suit in Suit\<close>, \<open>for rank in Rank\<close>).\<close>

definition all_suits :: "Suit list" where
  "all_suits = [HEARTS, DIAMONDS, CLUBS, SPADES]"

definition all_ranks :: "Rank list" where
  "all_ranks = [TWO, THREE, FOUR, FIVE, SIX, SEVEN, EIGHT, NINE, TEN, JACK, QUEEN, KING, ACE]"

record Card =
  suit :: Suit
  rank :: Rank

definition mk_Card :: "Suit \<Rightarrow> Rank \<Rightarrow> Card" where
  "mk_Card s r = \<lparr>suit = s, rank = r\<rparr>"

text \<open>\<open>str.lower\<close> and \<open>str.upper\<close> on ASCII, and \<open>str.strip\<close> on ASCII white space.\<close>

definition lower_char :: "char \<Rightarrow> char" where
  "lower_char c = (let n = (of_char c :: nat) in
     if 65 \<le> n \<and> n \<le> 90 then char_of (n + 32) else c)"

definition upper_char :: "char \<Rightarrow> char" where
  "upper_char c = (let n = (of_char c :: nat) in
     if 97 \<le> n \<and> n \<le> 122 then char_of (n - 32) else c)"

definition lower :: "string \<Rightarrow> string" where
  "lower s = map lower_char s"

definition upper :: "string \<Rightarrow> string" where
  "upper s = map upper_char s"

definition is_space :: "char \<Rightarrow> bool" where
  "is_space c = (let n = (of_char c :: nat) in (9 \<le> n \<and> n \<le> 13) \<or> (28 \<le> n \<and> n \<le> 32))"

definition strip :: "string \<Rightarrow> string" where
  "strip s = rev (dropWhile is_space (rev (dropWhile is_space s)))"

text \<open>\<open>RANK_TO_ASSET_NAME.get(self.rank, self.rank.value)\<close> and \<open>Card._image_filename\<close>.\<close>

fun rank_asset_name :: "Rank \<Rightarrow> string" where
  "rank_asset_name ACE = ''ace''"
| "rank_asset_name JACK = ''jack''"
| "rank_asset_name QUEEN = ''queen''"
| "rank_asset_name KING = ''king''"
| "rank_asset_name r = rank_value r"

definition image_filename :: "Card \<Rightarrow> string" where
  "image_filename c = rank_asset_name (rank c) @ ''_of_'' @ lower (suit_value (suit c)) @ ''.png''"

section \<open>Player and scoring\<close>

record Player =
  name :: string
  hand :: "Card list"
  score :: int
  is_dealer :: bool
  result :: string

definition new_Player :: "string \<Rightarrow> bool \<Rightarrow> Player" where
  "new_Player nm d =
     \<lparr>Player.name = nm, hand = [], Player.score = 0, is_dealer = d, Player.result = ''''\<rparr>"

text \<open>
  The first loop of \<open>calculate_score\<close>: one step per card on the pair
  \<open>(base_score, num_aces)\<close>.
\<close>

definition count_card :: "Card \<Rightarrow> int \<times> nat \<Rightarrow> int \<times> nat" where
  "count_card c acc = (case acc of (base_score, num_aces) \<Rightarrow>
     if rank c \<in> set [JACK, QUEEN, KING] then (base_score + 10, num_aces)
     else if rank c = ACE then (base_score, num_aces + 1)
     else (base_score + int_rank_value (rank c), num_aces))"

definition count_hand :: "Card list \<Rightarrow> int \<times> nat" where
  "count_hand cs = fold count_card cs (0, 0)"

text \<open>
  The local function \<open>generate_scores\<close>, with the list \<open>possible_scores\<close> it appends to
  passed through. The loop over \<open>[1, 10, 11]\<close> is written as its three calls in order. The only
  call starts at \<open>ace_index = 0\<close>, so \<open>ace_index \<le> num_aces\<close> throughout; beyond
  \<open>num_aces\<close> (where Python would recurse without end) the list is returned as it is.
\<close>

function generate_scores :: "nat \<Rightarrow> int \<Rightarrow> nat \<Rightarrow> int list \<Rightarrow> int list" where
  "generate_scores num_aces current_total ace_index possible_scores =
     (if ace_index = num_aces then possible_scores @ [current_total]
      else if ace_index < num_aces then
        generate_scores num_aces (current_total + 11) (ace_index + 1)
          (generate_scores num_aces (current_total + 10) (ace_index + 1)
            (generate_scores num_aces (current_total + 1) (ace_index + 1) possible_scores))
      else possible_scores)"
  by pat_completeness auto
termination
  by (relation "measure (\<lambda>(num_aces, current_total, ace_index, possible_scores). num_aces - ace_index)")
    auto

declare generate_scores.simps [simp del]

definition choose_score :: "bool \<Rightarrow> int list \<Rightarrow> int" where
  "choose_score dealer_role possible_scores =
     (let threshold = (if dealer_role then 15 else 16);
          valid_scores = filter (\<lambda>s. threshold \<le> s \<and> s \<le> 21) possible_scores
      in if valid_scores \<noteq> [] then Max (set valid_scores)
         else let fallback_scores = filter (\<lambda>s. s \<le> 21) possible_scores
              in if fallback_scores \<noteq> [] then Max (set fallback_scores)
                 else Min (set possible_scores))"

definition calculate_score :: "Player \<Rightarrow> Player" where
  "calculate_score p = (case count_hand (hand p) of (base_score, num_aces) \<Rightarrow>
     p\<lparr>Player.score := choose_score (is_dealer p) (generate_scores num_aces base_score 0 [])\<rparr>)"

definition add_card :: "Player \<Rightarrow> Card \<Rightarrow> Player" where
  "add_card p c = calculate_score (p\<lparr>hand := hand p @ [c]\<rparr>)"

definition reset_hand :: "Player \<Rightarrow> Player" where
  "reset_hand p = p\<lparr>hand := [], Player.score := 0\<rparr>"


section \<open>The round engine (class Game)\<close>

record Game =
  n_players :: int
  players :: "Player list"
  dealer :: Player
  deck :: "Card list"

text \<open>
  The state of the \<open>random\<close> module. \<open>random.shuffle\<close> belongs to the standard library:
  it permutes a list in place, by a permutation the generator's state decides. The model
  reads that permutation off the state as one sort key per position of the list, and moves
  on to the keys of the next shuffle. Whatever the keys, the result is a permutation of the
  list, and every permutation comes from some keys.
\<close>

type_synonym random_state = "nat \<Rightarrow> nat \<Rightarrow> nat"

definition random_shuffle :: "random_state \<Rightarrow> 'a list \<Rightarrow> 'a list \<times> random_state" where
  "random_shuffle rs xs =
     (map snd (sort_key fst (zip (map (rs 0) [0 ..< length xs]) xs)), \<lambda>i. rs (Suc i))"

definition full_deck :: "Card list" where
  "full_deck = concat (map (\<lambda>s. map (\<lambda>r. mk_Card s r) all_ranks) all_suits)"

definition create_deck :: "random_state \<Rightarrow> Card list \<times> random_state" where
  "create_deck rs = random_shuffle rs full_deck"

text \<open>\<open>Game.__init__\<close>: the two range checks raise before the deck is made.\<close>

definition Game_init :: "int \<Rightarrow> random_state \<Rightarrow> error + Game \<times> random_state" where
  "Game_init n rs =
     (if n < 1 then Inl (ValueError ''Number of players must be at least 1'')
      else if n > 8 then Inl (ValueError ''Number of players cannot exceed 8'')
      else (case create_deck rs of (d, rs') \<Rightarrow>
        Inr (\<lparr>n_players = n, Game.players = [], Game.dealer = new_Player ''Dealer'' True, deck = d\<rparr>,
             rs')))"

text \<open>
  \<open>draw_card\<close>: a fresh shuffled deck replaces an empty one, then the last card is popped.
  The list popped is never empty (lemma \<open>create_deck_length\<close> below: a fresh deck has 52
  cards).
\<close>

definition draw_card :: "Game \<Rightarrow> random_state \<Rightarrow> Card \<times> Game \<times> random_state" where
  "draw_card g rs =
     (case (if deck g = [] then (case create_deck rs of (d, rs') \<Rightarrow> (g\<lparr>deck := d\<rparr>, rs'))
            else (g, rs)) of
        (g1, rs1) \<Rightarrow> (last (deck g1), g1\<lparr>deck := butlast (deck g1)\<rparr>, rs1))"

text \<open>\<open>str\<close> of an integer, for the f-strings.\<close>

fun str_nat :: "nat \<Rightarrow> string" where
  "str_nat n = (if n < 10 then [char_of (48 + n)]
     else str_nat (n div 10) @ [char_of (48 + n mod 10)])"

declare str_nat.simps [simp del]

definition str_int :: "int \<Rightarrow> string" where
  "str_int i = (if i < 0 then CHR ''-'' # str_nat (nat (- i)) else str_nat (nat i))"

definition add_players :: "Game \<Rightarrow> Game" where
  "add_players g = g\<lparr>Game.players := Game.players g @
     map (\<lambda>i. new_Player (''Player '' @ str_nat (i + 1)) False) [0 ..< nat (n_players g)]\<rparr>"

text \<open>
  \<open>deal_initial_cards\<close>: the inner loop gives each player, in index order, the card
  drawn; then the dealer draws; the whole pass runs twice.
\<close>

fun deal_players :: "nat list \<Rightarrow> Game \<times> random_state \<Rightarrow> Game \<times> random_state" where
  "deal_players [] (g, rs) = (g, rs)"
| "deal_players (i # rest) (g, rs) =
     (case draw_card g rs of (c, g1, rs1) \<Rightarrow>
        deal_players rest
          (g1\<lparr>Game.players := (Game.players g1)[i := add_card (Game.players g1 ! i) c]\<rparr>, rs1))"

definition deal_pass :: "Game \<times> random_state \<Rightarrow> Game \<times> random_state" where
  "deal_pass st =
     (case deal_players [0 ..< length (Game.players (fst st))] st of (g1, rs1) \<Rightarrow>
        (case draw_card g1 rs1 of (c, g2, rs2) \<Rightarrow>
           (g2\<lparr>Game.dealer := add_card (Game.dealer g2) c\<rparr>, rs2)))"

definition deal_initial_cards :: "Game \<Rightarrow> random_state \<Rightarrow> Game \<times> random_state" where
  "deal_initial_cards g rs = deal_pass (deal_pass (g, rs))"

definition reset_game :: "Game \<Rightarrow> random_state \<Rightarrow> Game \<times> random_state" where
  "reset_game g rs = (case create_deck rs of (d, rs') \<Rightarrow>
     (g\<lparr>deck := d, Game.dealer := reset_hand (Game.dealer g),
        Game.players := map reset_hand (Game.players g)\<rparr>, rs'))"

text \<open>The three local predicates of \<open>evaluate_winner\<close>.\<close>

definition is_blackjack :: "Player \<Rightarrow> bool" where
  "is_blackjack p = (length (hand p) = 2 \<and> Player.score p = 21)"

definition is_golden_blackjack :: "Player \<Rightarrow> bool" where
  "is_golden_blackjack p = (length (hand p) = 2 \<and> list_all (\<lambda>c. rank c = ACE) (hand p))"

definition is_spirit :: "Player \<Rightarrow> bool" where
  "is_spirit p = (length (hand p) = 5 \<and> Player.score p \<le> 21)"

text \<open>
  Python's list indexing: a negative index counts from the end, and an index out of range
  raises \<open>IndexError\<close>.
\<close>

definition py_index :: "'a list \<Rightarrow> int \<Rightarrow> error + 'a" where
  "py_index xs i =
     (let n = int (length xs) in
      if 0 \<le> i \<and> i < n then Inr (xs ! nat i)
      else if - n \<le> i \<and> i < 0 then Inr (xs ! nat (n + i))
      else Inl IndexError)"

definition decide :: "Player \<Rightarrow> Player \<Rightarrow> string" where
  "decide player dlr =
     (let player_score = Player.score player;
          dealer_score = Player.score dlr;
          player_golden = is_golden_blackjack player;
          dealer_golden = is_golden_blackjack dlr;
          player_blackjack = is_blackjack player;
          dealer_blackjack = is_blackjack dlr
      in if player_golden \<and> dealer_golden then ''Draw (both Golden Blackjack)''
         else if player_golden then ''Player wins with Golden Blackjack''
         else if dealer_golden then ''Dealer wins with Golden Blackjack''
         else if player_blackjack \<and> dealer_blackjack then ''Draw (both Blackjack)''
         else if dealer_blackjack then ''Dealer wins with Blackjack''
         else if player_blackjack then ''Player wins with Blackjack''
         else if is_spirit player \<and> is_spirit dlr then ''Draw (both Di Linh)''
         else if is_spirit player then ''Player wins with Di Linh''
         else if is_spirit dlr then ''Dealer wins with Di Linh''
         else if player_score > 21 then ''Player busted - Dealer wins''
         else if dealer_score > 21 then ''Dealer busted - Player wins''
         else if player_score > dealer_score then ''Player wins''
         else if player_score < dealer_score then ''Dealer wins''
         else ''Draw'')"

definition evaluate_winner :: "Game \<Rightarrow> int \<Rightarrow> error + string" where
  "evaluate_winner g player_index =
     (case py_index (Game.players g) player_index of
        Inl e \<Rightarrow> Inl e
      | Inr player \<Rightarrow> Inr (decide player (Game.dealer g)))"

definition check_player :: "Game \<Rightarrow> int \<Rightarrow> error + Game" where
  "check_player g player_index =
     (if player_index < 0 \<or> player_index \<ge> int (length (Game.players g))
      then Inl (ValueError (''Player index '' @ str_int player_index @ '' is out of range.''))
      else (case evaluate_winner g player_index of
              Inl e \<Rightarrow> Inl e
            | Inr res \<Rightarrow>
                Inr (g\<lparr>Game.players := (Game.players g)
                       [nat player_index := (Game.players g ! nat player_index)\<lparr>Player.result := res\<rparr>]\<rparr>)))"

section \<open>Rooms and the room manager (app/main.py)\<close>

definition card_asset_url :: "Card \<Rightarrow> string" where
  "card_asset_url c = ''/assets/'' @ image_filename c"

text \<open>The module-level \<open>_is_blackjack\<close> and \<open>_is_golden_blackjack\<close>.\<close>

definition is_blackjack_main :: "Player \<Rightarrow> bool" where
  "is_blackjack_main p = (length (hand p) = 2 \<and> Player.score p = 21)"

definition is_golden_blackjack_main :: "Player \<Rightarrow> bool" where
  "is_golden_blackjack_main p =
     (length (hand p) = 2 \<and> list_all (\<lambda>c. rank_value (rank c) = ''A'') (hand p))"

record PlayerSeat =
  player_id :: string
  name :: string
  stood :: bool
  resolved :: bool
  result :: string

definition new_PlayerSeat :: "string \<Rightarrow> string \<Rightarrow> PlayerSeat" where
  "new_PlayerSeat pid nm = \<lparr>player_id = pid, PlayerSeat.name = nm, PlayerSeat.stood = False,
     PlayerSeat.resolved = False, PlayerSeat.result = ''''\<rparr>"

record Room =
  room_id :: string
  host_id :: string
  seats :: "PlayerSeat list"
  max_players :: int
  phase :: Phase
  current_player_index :: int
  game :: "Game option"

text \<open>\<open>Room.find_player_index\<close>: the first seat with that identifier, or \<open>-1\<close>.\<close>

fun find_from :: "PlayerSeat list \<Rightarrow> string \<Rightarrow> int \<Rightarrow> int" where
  "find_from [] pid idx = - 1"
| "find_from (seat # rest) pid idx =
     (if player_id seat = pid then idx else find_from rest pid (idx + 1))"

definition find_player_index :: "Room \<Rightarrow> string \<Rightarrow> int" where
  "find_player_index room pid = find_from (seats room) pid 0"

text \<open>
  The state the operations of the manager run on: the room table of \<open>RoomManager\<close>, the
  state of the \<open>random\<close> module, and the values the next calls of \<open>uuid.uuid4().hex\<close>
  return. The lock is not modelled: every operation holds it from start to end, so the
  operations are the atomic steps.
\<close>

record World =
  rooms :: "string \<rightharpoonup> Room"
  random :: random_state
  uuids :: "nat \<Rightarrow> string"

definition uuid4_hex :: "World \<Rightarrow> string \<times> World" where
  "uuid4_hex w = (uuids w 0, w\<lparr>uuids := (\<lambda>i. uuids w (Suc i))\<rparr>)"

definition new_player_id :: "World \<Rightarrow> string \<times> World" where
  "new_player_id w = (case uuid4_hex w of (h, w') \<Rightarrow> (take 12 h, w'))"

definition new_room_id :: "World \<Rightarrow> string \<times> World" where
  "new_room_id w = (case uuid4_hex w of (h, w') \<Rightarrow> (upper (take 6 h), w'))"

definition create_room :: "World \<Rightarrow> string \<Rightarrow> int \<Rightarrow> (string \<times> string) \<times> World" where
  "create_room w player_name maxp =
     (case new_room_id w of (rid, w1) \<Rightarrow>
      case new_player_id w1 of (pid, w2) \<Rightarrow>
        (let room = \<lparr>Room.room_id = rid, host_id = pid,
                      seats = [new_PlayerSeat pid (strip player_name)],
                      max_players = maxp, Room.phase = Waiting,
                      Room.current_player_index = 0, game = None\<rparr>
         in ((rid, pid), w2\<lparr>rooms := (rooms w2)(rid \<mapsto> room)\<rparr>)))"

definition join_room :: "World \<Rightarrow> string \<Rightarrow> string \<Rightarrow> (error + string \<times> string) \<times> World" where
  "join_room w rid player_name =
     (case rooms w rid of
        None \<Rightarrow> (Inl (HTTPException 404 ''Room not found''), w)
      | Some room \<Rightarrow>
          if Room.phase room \<noteq> Waiting then (Inl (HTTPException 400 ''Game already started''), w)
          else if int (length (seats room)) \<ge> max_players room
            then (Inl (HTTPException 400 ''Room is full''), w)
          else (case new_player_id w of (pid, w1) \<Rightarrow>
            (Inr (rid, pid),
             w1\<lparr>rooms := (rooms w1)
                  (rid \<mapsto> room\<lparr>seats := seats room @ [new_PlayerSeat pid (strip player_name)]\<rparr>)\<rparr>)))"

text \<open>
  \<open>_is_finished\<close>. The two subscripts and the attribute access on \<open>room.game\<close> raise when
  the index is out of range or the room has no game.
\<close>

definition is_finished :: "Room \<Rightarrow> nat \<Rightarrow> error + bool" where
  "is_finished room player_index =
     (if player_index \<ge> length (seats room) then Inl IndexError
      else (case game room of
              None \<Rightarrow> Inl AttributeError
            | Some g \<Rightarrow>
                if player_index \<ge> length (Game.players g) then Inl IndexError
                else (let seat = seats room ! player_index;
                          player = Game.players g ! player_index
                      in Inr (PlayerSeat.resolved seat \<or> PlayerSeat.stood seat
                              \<or> Player.score player > 21 \<or> length (hand player) \<ge> 5))))"

text \<open>
  The scan both \<open>_move_to_next_playable\<close> and \<open>_advance_after\<close> make: the first index
  of the range whose seat is not finished.
\<close>

fun first_unfinished :: "Room \<Rightarrow> nat list \<Rightarrow> error + nat option" where
  "first_unfinished room [] = Inr None"
| "first_unfinished room (idx # rest) =
     (case is_finished room idx of
        Inl e \<Rightarrow> Inl e
      | Inr fin \<Rightarrow> if \<not> fin then Inr (Some idx) else first_unfinished room rest)"

text \<open>
  A helper that changes a room returns the exception it raised, if any, with the room as
  the exception left it: what was assigned before the raise stays assigned.
\<close>

definition move_to_next_playable :: "Room \<Rightarrow> error option \<times> Room" where
  "move_to_next_playable room =
     (case first_unfinished room [0 ..< length (seats room)] of
        Inl e \<Rightarrow> (Some e, room)
      | Inr (Some idx) \<Rightarrow>
          (None, room\<lparr>Room.current_player_index := int idx, Room.phase := PlayerTurns\<rparr>)
      | Inr None \<Rightarrow> (None, room\<lparr>Room.phase := DealerTurn\<rparr>))"

definition advance_after :: "Room \<Rightarrow> nat \<Rightarrow> error option \<times> Room" where
  "advance_after room from_index =
     (case first_unfinished room [from_index + 1 ..< length (seats room)] of
        Inl e \<Rightarrow> (Some e, room)
      | Inr (Some idx) \<Rightarrow> (None, room\<lparr>Room.current_player_index := int idx\<rparr>)
      | Inr None \<Rightarrow> move_to_next_playable room)"

text \<open>
  The three statements both \<open>_resolve_initial_naturals\<close> and \<open>_run_dealer_and_finalize\<close>
  run on a seat: \<open>check_player(idx)\<close>, copy the result to the seat, mark it resolved.
\<close>

definition resolve_seat :: "Room \<Rightarrow> Game \<Rightarrow> nat \<Rightarrow> error option \<times> Room" where
  "resolve_seat room g idx =
     (case check_player g (int idx) of
        Inl e \<Rightarrow> (Some e, room)
      | Inr g' \<Rightarrow>
          (None, room\<lparr>game := Some g',
                       seats := (seats room)[idx := (seats room ! idx)
                         \<lparr>PlayerSeat.resolved := True,
                          PlayerSeat.result := Player.result (Game.players g' ! idx)\<rparr>]\<rparr>))"

fun resolve_naturals_loop :: "nat list \<Rightarrow> Room \<Rightarrow> error option \<times> Room" where
  "resolve_naturals_loop [] room = (None, room)"
| "resolve_naturals_loop (idx # rest) room =
     (case game room of
        None \<Rightarrow> (Some AttributeError, room)
      | Some g \<Rightarrow>
          if idx \<ge> length (Game.players g) then (Some IndexError, room)
          else if is_blackjack_main (Game.players g ! idx)
                  \<or> is_golden_blackjack_main (Game.players g ! idx)
          then (case resolve_seat room g idx of
                  (Some e, room') \<Rightarrow> (Some e, room')
                | (None, room') \<Rightarrow> resolve_naturals_loop rest room')
          else resolve_naturals_loop rest room)"

definition resolve_initial_naturals :: "Room \<Rightarrow> error option \<times> Room" where
  "resolve_initial_naturals room = resolve_naturals_loop [0 ..< length (seats room)] room"

text \<open>
  \<open>_run_dealer_and_finalize\<close>. The dealer draws while the hand has fewer than five cards
  and the score is below 15; every draw adds a card, so the loop ends.
\<close>

function dealer_draw_loop :: "Game \<Rightarrow> random_state \<Rightarrow> Game \<times> random_state" where
  "dealer_draw_loop g rs =
     (if length (hand (Game.dealer g)) < 5 \<and> Player.score (Game.dealer g) < 15
      then (case draw_card g rs of (c, g1, rs1) \<Rightarrow>
              dealer_draw_loop (g1\<lparr>Game.dealer := add_card (Game.dealer g1) c\<rparr>) rs1)
      else (g, rs))"
  by pat_completeness auto
termination
  apply (relation "measure (\<lambda>(g, rs). 5 - length (hand (Game.dealer g)))")
   apply simp
  apply (auto simp: draw_card_def add_card_def calculate_score_def split: if_splits prod.splits)
  done

declare dealer_draw_loop.simps [simp del]

fun finalize_loop :: "nat list \<Rightarrow> Room \<Rightarrow> error option \<times> Room" where
  "finalize_loop [] room = (None, room)"
| "finalize_loop (idx # rest) room =
     (case game room of
        None \<Rightarrow> (Some AttributeError, room)
      | Some g \<Rightarrow>
          (case resolve_seat room g idx of
             (Some e, room') \<Rightarrow> (Some e, room')
           | (None, room') \<Rightarrow> finalize_loop rest room'))"

definition run_dealer_and_finalize ::
  "Room \<Rightarrow> random_state \<Rightarrow> error option \<times> Room \<times> random_state" where
  "run_dealer_and_finalize room rs =
     (case game room of
        None \<Rightarrow> (Some AttributeError, room, rs)
      | Some g \<Rightarrow>
          (case dealer_draw_loop g rs of (g1, rs1) \<Rightarrow>
             (case finalize_loop [0 ..< length (seats room)] (room\<lparr>game := Some g1\<rparr>) of
                (Some e, room') \<Rightarrow> (Some e, room', rs1)
              | (None, room') \<Rightarrow> (None, room'\<lparr>Room.phase := Results\<rparr>, rs1))))"

text \<open>
  \<open>start_game\<close>, in the order of its statements. \<open>new_game\<close> builds and deals the engine
  (a local variable until it is assigned to the room, so a \<open>ValueError\<close> of the constructor
  leaves the room as it was); \<open>seat_game\<close> are the assignments to the room and its seats;
  \<open>finish_start\<close> is the rest: naturals, the dealer's natural, the first turn.
\<close>

definition copy_names :: "PlayerSeat list \<Rightarrow> Game \<Rightarrow> Game" where
  "copy_names ss g =
     fold (\<lambda>idx g. g\<lparr>Game.players := (Game.players g)
              [idx := (Game.players g ! idx)\<lparr>Player.name := PlayerSeat.name (ss ! idx)\<rparr>]\<rparr>)
       [0 ..< length ss] g"

definition new_game :: "Room \<Rightarrow> random_state \<Rightarrow> error + Game \<times> random_state" where
  "new_game room rs =
     (case Game_init (int (length (seats room))) rs of
        Inl e \<Rightarrow> Inl e
      | Inr (g0, rs1) \<Rightarrow> Inr (deal_initial_cards (copy_names (seats room) (add_players g0)) rs1))"

definition seat_game :: "Room \<Rightarrow> Game \<Rightarrow> Room" where
  "seat_game room g =
     room\<lparr>game := Some g, Room.phase := PlayerTurns, Room.current_player_index := 0,
          seats := map (\<lambda>seat. seat\<lparr>PlayerSeat.stood := False, PlayerSeat.resolved := False,
                                     PlayerSeat.result := ''''\<rparr>) (seats room)\<rparr>"

definition finish_start :: "Room \<Rightarrow> random_state \<Rightarrow> error option \<times> Room \<times> random_state" where
  "finish_start room rs =
     (case resolve_initial_naturals room of
        (Some e, room1) \<Rightarrow> (Some e, room1, rs)
      | (None, room1) \<Rightarrow>
          (case game room1 of
             None \<Rightarrow> (Some AttributeError, room1, rs)
           | Some g \<Rightarrow>
               if is_blackjack_main (Game.dealer g) \<or> is_golden_blackjack_main (Game.dealer g)
               then run_dealer_and_finalize room1 rs
               else (case move_to_next_playable room1 of
                       (Some e, room2) \<Rightarrow> (Some e, room2, rs)
                     | (None, room2) \<Rightarrow>
                         if Room.phase room2 = DealerTurn then run_dealer_and_finalize room2 rs
                         else (None, room2, rs))))"

definition store :: "World \<Rightarrow> string \<Rightarrow> Room \<Rightarrow> random_state \<Rightarrow> World" where
  "store w rid room rs = w\<lparr>rooms := (rooms w)(rid \<mapsto> room), random := rs\<rparr>"

definition outcome :: "error option \<Rightarrow> error + unit" where
  "outcome e = (case e of None \<Rightarrow> Inr () | Some x \<Rightarrow> Inl x)"

definition start_game :: "World \<Rightarrow> string \<Rightarrow> string \<Rightarrow> (error + unit) \<times> World" where
  "start_game w rid pid =
     (case rooms w rid of
        None \<Rightarrow> (Inl (HTTPException 404 ''Room not found''), w)
      | Some room \<Rightarrow>
          if host_id room \<noteq> pid then (Inl (HTTPException 403 ''Only host can start the game''), w)
          else if Room.phase room \<noteq> Waiting
            then (Inl (HTTPException 400 ''Game already started''), w)
          else (case new_game room (random w) of
                  Inl e \<Rightarrow> (Inl e, w)
                | Inr (g, rs1) \<Rightarrow>
                    (case finish_start (seat_game room g) rs1 of
                       (e, room', rs2) \<Rightarrow> (outcome e, store w rid room' rs2))))"

text \<open>\<open>player_action\<close>.\<close>

definition apply_action :: "Room \<Rightarrow> Game \<Rightarrow> nat \<Rightarrow> string \<Rightarrow> random_state \<Rightarrow> Room \<times> random_state"
  where
  "apply_action room g idx action rs =
     (if action = ''hit''
      then (case draw_card g rs of (c, g1, rs1) \<Rightarrow>
              (room\<lparr>game := Some (g1\<lparr>Game.players := (Game.players g1)
                        [idx := add_card (Game.players g1 ! idx) c]\<rparr>)\<rparr>, rs1))
      else (room\<lparr>seats := (seats room)[idx := (seats room ! idx)\<lparr>PlayerSeat.stood := True\<rparr>]\<rparr>,
            rs))"

definition after_action :: "Room \<Rightarrow> nat \<Rightarrow> random_state \<Rightarrow> error option \<times> Room \<times> random_state"
  where
  "after_action room idx rs =
     (case is_finished room idx of
        Inl e \<Rightarrow> (Some e, room, rs)
      | Inr fin \<Rightarrow>
          (case (if fin then advance_after room idx else (None, room)) of
             (Some e, room1) \<Rightarrow> (Some e, room1, rs)
           | (None, room1) \<Rightarrow>
               if Room.phase room1 = DealerTurn then run_dealer_and_finalize room1 rs
               else (None, room1, rs)))"

definition player_action :: "World \<Rightarrow> string \<Rightarrow> string \<Rightarrow> string \<Rightarrow> (error + unit) \<times> World" where
  "player_action w rid pid action0 =
     (case rooms w rid of
        None \<Rightarrow> (Inl (HTTPException 404 ''Room not found''), w)
      | Some room \<Rightarrow>
          if Room.phase room \<noteq> PlayerTurns then (Inl (HTTPException 400 ''Not in player turns''), w)
          else (let idx = find_player_index room pid in
            if idx = - 1 then (Inl (HTTPException 403 ''Player not in room''), w)
            else if idx \<noteq> Room.current_player_index room
              then (Inl (HTTPException 400 ''Not your turn''), w)
            else if PlayerSeat.resolved (seats room ! nat idx)
              then (Inl (HTTPException 400 ''Player already resolved''), w)
            else (let action = strip (lower action0) in
              if action \<notin> set [''hit'', ''stand'']
              then (Inl (HTTPException 400 ''Action must be hit or stand''), w)
              else (case game room of
                      None \<Rightarrow> (Inl AttributeError, w)
                    | Some g \<Rightarrow>
                        if nat idx \<ge> length (Game.players g) then (Inl IndexError, w)
                        else (case apply_action room g (nat idx) action (random w) of
                                (room1, rs1) \<Rightarrow>
                                  (case after_action room1 (nat idx) rs1 of
                                     (e, room2, rs2) \<Rightarrow> (outcome e, store w rid room2 rs2)))))))"

text \<open>
  \<open>get_state\<close>. The viewer's identifier is optional; \<open>None\<close> and the empty string both
  count as no viewer (\<open>if player_id\<close>).
\<close>

definition card_entry :: "bool \<Rightarrow> Card \<Rightarrow> card_view" where
  "card_entry hide c =
     (if hide then HiddenCard
      else VisibleCard (rank_value (rank c)) (suit_value (suit c)) (card_asset_url c))"

definition waiting_entry :: "PlayerSeat \<Rightarrow> player_view" where
  "waiting_entry seat =
     \<lparr>player_view.name = PlayerSeat.name seat, player_view.score = NoScore,
      player_view.cards = [], player_view.stood = PlayerSeat.stood seat,
      player_view.resolved = PlayerSeat.resolved seat, player_view.result = None\<rparr>"

definition seat_hidden :: "Room \<Rightarrow> nat \<Rightarrow> bool" where
  "seat_hidden room idx =
     (Room.phase room = PlayerTurns \<and> int idx \<noteq> Room.current_player_index room
      \<and> \<not> PlayerSeat.resolved (seats room ! idx))"

definition player_entry :: "Room \<Rightarrow> Player \<Rightarrow> nat \<Rightarrow> player_view" where
  "player_entry room player idx =
     (let seat = seats room ! idx; hide = seat_hidden room idx
      in \<lparr>player_view.name = PlayerSeat.name seat,
          player_view.score = (if hide then QuestionMark else ScoreOf (Player.score player)),
          player_view.cards = map (card_entry hide) (hand player),
          player_view.stood = PlayerSeat.stood seat,
          player_view.resolved = PlayerSeat.resolved seat,
          player_view.result = Some (PlayerSeat.result seat)\<rparr>)"

fun player_entries :: "Room \<Rightarrow> Game \<Rightarrow> nat list \<Rightarrow> error + player_view list" where
  "player_entries room g [] = Inr []"
| "player_entries room g (idx # rest) =
     (if idx \<ge> length (Game.players g) then Inl IndexError
      else (case player_entries room g rest of
              Inl e \<Rightarrow> Inl e
            | Inr vs \<Rightarrow> Inr (player_entry room (Game.players g ! idx) idx # vs)))"

definition get_state :: "World \<Rightarrow> string \<Rightarrow> string option \<Rightarrow> error + RoomStateResponse" where
  "get_state w rid viewer =
     (case rooms w rid of
        None \<Rightarrow> Inl (HTTPException 404 ''Room not found'')
      | Some room \<Rightarrow>
          (let raw_idx = (case viewer of
                            None \<Rightarrow> - 1
                          | Some pid \<Rightarrow> if pid = '''' then - 1 else find_player_index room pid);
               your_idx = (if raw_idx < 0 then None else Some raw_idx)
           in if Room.phase room = Waiting
              then Inr \<lparr>RoomStateResponse.room_id = Room.room_id room,
                        RoomStateResponse.phase = Room.phase room,
                        RoomStateResponse.current_player_index = Room.current_player_index room,
                        your_player_index = your_idx,
                        RoomStateResponse.players = map waiting_entry (seats room),
                        RoomStateResponse.dealer =
                          \<lparr>dealer_view.score = NoScore, dealer_view.cards = []\<rparr>,
                        can_start = (viewer = Some (host_id room)),
                        can_act = False,
                        results = []\<rparr>
              else (case game room of
                      None \<Rightarrow> Inl AttributeError
                    | Some g \<Rightarrow>
                        (case player_entries room g [0 ..< length (seats room)] of
                           Inl e \<Rightarrow> Inl e
                         | Inr views \<Rightarrow>
                             (let hide_dealer = (Room.phase room = PlayerTurns)
                              in Inr \<lparr>RoomStateResponse.room_id = Room.room_id room,
                                       RoomStateResponse.phase = Room.phase room,
                                       RoomStateResponse.current_player_index =
                                         Room.current_player_index room,
                                       your_player_index = your_idx,
                                       RoomStateResponse.players = views,
                                       RoomStateResponse.dealer =
                                         \<lparr>dealer_view.score =
                                            (if hide_dealer then QuestionMark
                                             else ScoreOf (Player.score (Game.dealer g))),
                                          dealer_view.cards =
                                            map (card_entry hide_dealer) (hand (Game.dealer g))\<rparr>,
                                       can_start = False,
                                       can_act = (your_idx = Some (Room.current_player_index room)
                                                  \<and> Room.phase room = PlayerTurns),
                                       results = (if Room.phase room = Results
                                                  then map (\<lambda>seat. (PlayerSeat.name seat,
                                                                      PlayerSeat.result seat))
                                                         (seats room)
                                                  else [])\<rparr>)))))"
subsection \<open>The scoring rule as the specification words it\<close>

text \<open>
  J, Q and K contribute 10, number cards their face value; aces are counted apart. Every
  ace takes one of the values 1, 10, 11; the candidate totals are the base plus the sum of
  one assignment.
\<close>

fun face_value :: "Rank \<Rightarrow> int" where
  "face_value JACK = 10"
| "face_value QUEEN = 10"
| "face_value KING = 10"
| "face_value ACE = 0"
| "face_value TWO = 2"
| "face_value THREE = 3"
| "face_value FOUR = 4"
| "face_value FIVE = 5"
| "face_value SIX = 6"
| "face_value SEVEN = 7"
| "face_value EIGHT = 8"
| "face_value NINE = 9"
| "face_value TEN = 10"

definition face_sum :: "Card list \<Rightarrow> int" where
  "face_sum cs = (\<Sum>c \<leftarrow> filter (\<lambda>c. rank c \<noteq> ACE) cs. face_value (rank c))"

definition ace_count :: "Card list \<Rightarrow> nat" where
  "ace_count cs = length (filter (\<lambda>c. rank c = ACE) cs)"

definition ace_assignments :: "nat \<Rightarrow> int list set" where
  "ace_assignments k = {vs. length vs = k \<and> set vs \<subseteq> {1, 10, 11}}"

definition candidate_totals :: "int \<Rightarrow> nat \<Rightarrow> int set" where
  "candidate_totals base k = (\<lambda>vs. base + sum_list vs) ` ace_assignments k"

definition reference_score :: "Card list \<Rightarrow> bool \<Rightarrow> int" where
  "reference_score cs dealer_role =
     (let C = candidate_totals (face_sum cs) (ace_count cs);
          threshold = (if dealer_role then 15 else 16)
      in if \<exists>c \<in> C. threshold \<le> c \<and> c \<le> 21 then Max {c \<in> C. threshold \<le> c \<and> c \<le> 21}
         else if \<exists>c \<in> C. c \<le> 21 then Max {c \<in> C. c \<le> 21}
         else Min C)"

subsection \<open>The priority ladder as the specification words it\<close>

text \<open>
  The three special hands, and the ladder read top to bottom: the golden rung, the
  blackjack rung, the spirit rung, the two busts, and the comparison of scores. Each rung
  names a verdict; \<open>verdict_text\<close> is the result string the code returns for it.
\<close>

definition golden_hand :: "Player \<Rightarrow> bool" where
  "golden_hand p = (length (hand p) = 2 \<and> (\<forall>c \<in> set (hand p). rank c = ACE))"

definition blackjack_hand :: "Player \<Rightarrow> bool" where
  "blackjack_hand p = (length (hand p) = 2 \<and> Player.score p = 21)"

definition spirit_hand :: "Player \<Rightarrow> bool" where
  "spirit_hand p = (length (hand p) = 5 \<and> Player.score p \<le> 21)"

datatype verdict =
    BothGolden | PlayerGolden | DealerGolden
  | BothBlackjack | DealerBlackjack | PlayerBlackjack
  | BothSpirit | PlayerSpirit | DealerSpirit
  | PlayerBusted | DealerBusted
  | PlayerHigher | DealerHigher | EqualScores

fun verdict_text :: "verdict \<Rightarrow> string" where
  "verdict_text BothGolden = ''Draw (both Golden Blackjack)''"
| "verdict_text PlayerGolden = ''Player wins with Golden Blackjack''"
| "verdict_text DealerGolden = ''Dealer wins with Golden Blackjack''"
| "verdict_text BothBlackjack = ''Draw (both Blackjack)''"
| "verdict_text DealerBlackjack = ''Dealer wins with Blackjack''"
| "verdict_text PlayerBlackjack = ''Player wins with Blackjack''"
| "verdict_text BothSpirit = ''Draw (both Di Linh)''"
| "verdict_text PlayerSpirit = ''Player wins with Di Linh''"
| "verdict_text DealerSpirit = ''Dealer wins with Di Linh''"
| "verdict_text PlayerBusted = ''Player busted - Dealer wins''"
| "verdict_text DealerBusted = ''Dealer busted - Player wins''"
| "verdict_text PlayerHigher = ''Player wins''"
| "verdict_text DealerHigher = ''Dealer wins''"
| "verdict_text EqualScores = ''Draw''"

definition ladder :: "Player \<Rightarrow> Player \<Rightarrow> verdict" where
  "ladder p d =
     (if golden_hand p \<or> golden_hand d then
        (if golden_hand p \<and> golden_hand d then BothGolden
         else if golden_hand p then PlayerGolden else DealerGolden)
      else if blackjack_hand p \<or> blackjack_hand d then
        (if blackjack_hand p \<and> blackjack_hand d then BothBlackjack
         else if blackjack_hand d then DealerBlackjack else PlayerBlackjack)
      else if spirit_hand p \<or> spirit_hand d then
        (if spirit_hand p \<and> spirit_hand d then BothSpirit
         else if spirit_hand p then PlayerSpirit else DealerSpirit)
      else if Player.score p > 21 then PlayerBusted
      else if Player.score d > 21 then DealerBusted
      else if Player.score p > Player.score d then PlayerHigher
      else if Player.score p < Player.score d then DealerHigher
      else EqualScores)"

section \<open>Notions used in the statements and proofs\<close>

text \<open>
  The positions, in the order of drawing, of the cards of the initial deal, listed player
  by player and then the dealer, for \<open>m\<close> players.
\<close>

definition deal_order :: "nat \<Rightarrow> nat list" where
  "deal_order m = concat (map (\<lambda>j. [j, m + 1 + j]) [0 ..< m]) @ [m, 2 * m + 1]"


text \<open>
  A sequence of \<open>create_room\<close> calls, one per request (name and seat limit), with the
  identifiers each call returned; and the condition that the room identifier generated
  for each call is absent from the room table at the time of that call.
\<close>

fun create_rooms :: "World \<Rightarrow> (string \<times> int) list \<Rightarrow> (string \<times> string) list \<times> World" where
  "create_rooms w [] = ([], w)"
| "create_rooms w ((nm, maxp) # reqs) =
     (case create_room w nm maxp of (ids, w1) \<Rightarrow>
        (case create_rooms w1 reqs of (rest, w2) \<Rightarrow> (ids # rest, w2)))"

fun fresh_room_ids :: "World \<Rightarrow> (string \<times> int) list \<Rightarrow> bool" where
  "fresh_room_ids w [] = True"
| "fresh_room_ids w ((nm, maxp) # reqs) =
     (rooms w (fst (new_room_id w)) = None
      \<and> fresh_room_ids (snd (create_room w nm maxp)) reqs)"

text \<open>
  Two worlds for the examples. In the first the generator returns four version-4 UUIDs
  of which the first and the third differ but share their first six hexadecimal digits;
  in the second the four have different beginnings.
\<close>

definition collision_world :: World where
  "collision_world =
     \<lparr>rooms = Map.empty, random = (\<lambda>i k. k),
      uuids = (\<lambda>i. if i = 0 then ''abcdef0123454abc8def0123456789ab''
                    else if i = 1 then ''1111111111114111a111111111111111''
                    else if i = 2 then ''abcdef9999994999b999999999999999''
                    else ''2222222222224222822222222222222f'')\<rparr>"

definition plain_world :: World where
  "plain_world =
     \<lparr>rooms = Map.empty, random = (\<lambda>i k. k),
      uuids = (\<lambda>i. if i = 0 then ''abcdef0123454abc8def0123456789ab''
                    else if i = 1 then ''1111111111114111a111111111111111''
                    else if i = 2 then ''fedcba9999994999b999999999999999''
                    else ''2222222222224222822222222222222f'')\<rparr>"

text \<open>
  A table of two seats for the examples: ann opens room \<open>ABCDEF\<close> and bob joins. The first
  shuffle reverses the fresh deck, so that the cards come off it as the two, three, four,
  ... of hearts, and nobody is dealt a natural.
\<close>

definition demo_start :: World where
  "demo_start = plain_world\<lparr>random := (\<lambda>i k. 52 - k)\<rparr>"

definition demo_waiting :: World where
  "demo_waiting = snd (join_room (snd (create_room demo_start ''ann'' 2)) ''ABCDEF'' ''bob'')"

definition demo_playing :: World where
  "demo_playing = snd (start_game demo_waiting ''ABCDEF'' ''111111111111'')"

text \<open>
  A seat is finished when \<open>_is_finished\<close> returns \<open>True\<close> for it; a hand is a natural when
  it is a blackjack or a golden blackjack in the sense of the manager's two predicates.
\<close>

definition finished :: "Room \<Rightarrow> nat \<Rightarrow> bool" where
  "finished room i = (is_finished room i = Inr True)"

definition natural :: "Player \<Rightarrow> bool" where
  "natural p = (is_blackjack_main p \<or> is_golden_blackjack_main p)"

text \<open>Two engines that agree on everything but the result strings of their players.\<close>

definition same_hands :: "Game \<Rightarrow> Game \<Rightarrow> bool" where
  "same_hands g g' =
     (Game.dealer g' = Game.dealer g \<and> deck g' = deck g \<and> n_players g' = n_players g
      \<and> map (\<lambda>p. p\<lparr>Player.result := ''''\<rparr>) (Game.players g')
          = map (\<lambda>p. p\<lparr>Player.result := ''''\<rparr>) (Game.players g))"

text \<open>
  \<open>settled S g room room'\<close>: \<open>room'\<close> is \<open>room\<close> with the seats of \<open>S\<close> marked resolved
  and given the result \<open>evaluate_winner\<close> decides on the hands of \<open>g\<close>, and nothing else
  changed but the result strings of the engine's players.
\<close>

definition settled :: "nat set \<Rightarrow> Game \<Rightarrow> Room \<Rightarrow> Room \<Rightarrow> bool" where
  "settled S g room room' =
     (Room.phase room' = Room.phase room
      \<and> Room.current_player_index room' = Room.current_player_index room
      \<and> Room.room_id room' = Room.room_id room \<and> host_id room' = host_id room
      \<and> max_players room' = max_players room
      \<and> length (seats room') = length (seats room)
      \<and> (\<exists>g'. game room' = Some g' \<and> same_hands g g')
      \<and> (\<forall>i < length (seats room).
            seats room' ! i =
              (if i \<in> S
               then (seats room ! i)\<lparr>PlayerSeat.resolved := True,
                      PlayerSeat.result := decide (Game.players g ! i) (Game.dealer g)\<rparr>
               else seats room ! i)))"

text \<open>
  The invariant of a room between two operations of the manager: the phase is not
  \<open>dealer_turn\<close>; once the round has started there is an engine with one player per seat;
  and while players take turns the turn index points at a seat that is not finished, with
  every seat before it finished.
\<close>

definition seated :: "Room \<Rightarrow> bool" where
  "seated room =
     (case game room of None \<Rightarrow> False
      | Some g \<Rightarrow> length (Game.players g) = length (seats room))"

definition room_inv :: "Room \<Rightarrow> bool" where
  "room_inv room =
     (Room.phase room \<noteq> DealerTurn
      \<and> (Room.phase room \<noteq> Waiting \<longrightarrow> seated room)
      \<and> (Room.phase room = PlayerTurns \<longrightarrow>
            0 \<le> Room.current_player_index room
            \<and> Room.current_player_index room < int (length (seats room))
            \<and> (\<forall>j < nat (Room.current_player_index room). finished room j)
            \<and> \<not> finished room (nat (Room.current_player_index room))))"

definition world_inv :: "World \<Rightarrow> bool" where
  "world_inv w = (\<forall>rid room. rooms w rid = Some room \<longrightarrow> room_inv room)"

text \<open>
  The worlds the manager can be in: it starts with an empty room table, and every call of
  one of its four operations, whether it returns or raises, leads to the next world.
\<close>

inductive reachable :: "World \<Rightarrow> bool" where
  initial: "rooms w = Map.empty \<Longrightarrow> reachable w"
| create: "reachable w \<Longrightarrow> reachable (snd (create_room w nm maxp))"
| join: "reachable w \<Longrightarrow> reachable (snd (join_room w rid nm))"
| start: "reachable w \<Longrightarrow> reachable (snd (start_game w rid pid))"
| action: "reachable w \<Longrightarrow> reachable (snd (player_action w rid pid act))"

text \<open>
  A sequence of calls of \<open>player_action\<close> on one room, each given by the caller and the
  action: the worlds it passes through, the first included, provided every call returns.
\<close>

fun play :: "World \<Rightarrow> string \<Rightarrow> (string \<times> string) list \<Rightarrow> World list option" where
  "play w rid [] = Some [w]"
| "play w rid ((pid, act) # rest) =
     (case player_action w rid pid act of
        (Inl e, w') \<Rightarrow> None
      | (Inr u, w') \<Rightarrow> (case play w' rid rest of None \<Rightarrow> None | Some ws \<Rightarrow> Some (w # ws)))"

text \<open>
  The room as \<open>start_game\<close> has it right after \<open>_resolve_initial_naturals\<close>, before it
  looks at the dealer's hand: the deal and the results snapshotted at deal time.
\<close>

definition dealt_snapshot :: "World \<Rightarrow> string \<Rightarrow> Room option" where
  "dealt_snapshot w rid =
     (case rooms w rid of
        None \<Rightarrow> None
      | Some room \<Rightarrow>
          (case new_game room (random w) of
             Inl e \<Rightarrow> None
           | Inr (g, rs1) \<Rightarrow> Some (snd (resolve_initial_naturals (seat_game room g)))))"

section \<open>Scoring: the code against the reference rule\<close>

lemma ace_assignments_0: "ace_assignments 0 = {[]}"
  by (auto simp: ace_assignments_def)

lemma ace_assignments_Suc:
  "ace_assignments (Suc k) =
     (\<lambda>vs. 1 # vs) ` ace_assignments k \<union> (\<lambda>vs. 10 # vs) ` ace_assignments k
       \<union> (\<lambda>vs. 11 # vs) ` ace_assignments k"
  by (auto simp: ace_assignments_def length_Suc_conv image_iff)

lemma candidate_totals_0: "candidate_totals b 0 = {b}"
  by (simp add: candidate_totals_def ace_assignments_0)

lemma candidate_totals_Suc:
  "candidate_totals b (Suc k) =
     candidate_totals (b + 1) k \<union> candidate_totals (b + 10) k \<union> candidate_totals (b + 11) k"
  by (simp add: candidate_totals_def ace_assignments_Suc image_Un image_image add.assoc)

lemma finite_candidate_totals: "finite (candidate_totals b k)"
  by (induction k arbitrary: b) (simp_all add: candidate_totals_0 candidate_totals_Suc)

lemma candidate_totals_nonempty: "candidate_totals b k \<noteq> {}"
  by (induction k arbitrary: b) (simp_all add: candidate_totals_0 candidate_totals_Suc)

lemma generate_scores_set:
  "i \<le> n \<Longrightarrow> set (generate_scores n t i ps) = set ps \<union> candidate_totals t (n - i)"
proof (induction n t i ps rule: generate_scores.induct)
  case (1 n t i ps)
  show ?case
  proof (cases "i = n")
    case True
    then show ?thesis
      by (simp add: generate_scores.simps [of n t n ps] candidate_totals_0)
  next
    case False
    with "1.prems" have lt: "i < n" and le: "i + 1 \<le> n" by simp_all
    from lt have k: "n - i = Suc (n - (i + 1))" by simp
    from lt have ne: "i \<noteq> n" by simp
    show ?thesis
      unfolding generate_scores.simps [of n t i ps] k candidate_totals_Suc
      using "1.IH"(1) [OF ne lt le] "1.IH"(2) [OF ne lt le] "1.IH"(3) [OF ne lt le] lt
      by (simp add: Un_assoc)
  qed
qed

lemma generate_scores_length:
  "i \<le> n \<Longrightarrow> length (generate_scores n t i ps) = length ps + 3 ^ (n - i)"
proof (induction n t i ps rule: generate_scores.induct)
  case (1 n t i ps)
  show ?case
  proof (cases "i = n")
    case True
    then show ?thesis
      by (simp add: generate_scores.simps [of n t n ps])
  next
    case False
    with "1.prems" have lt: "i < n" and le: "i + 1 \<le> n" by simp_all
    from lt have k: "n - i = Suc (n - (i + 1))" by simp
    from lt have ne: "i \<noteq> n" by simp
    show ?thesis
      unfolding generate_scores.simps [of n t i ps] k
      using "1.IH"(1) [OF ne lt le] "1.IH"(2) [OF ne lt le] "1.IH"(3) [OF ne lt le] lt
      by simp
  qed
qed

lemma count_card_step:
  "count_card c (b, a) =
     (b + (if rank c = ACE then 0 else face_value (rank c)), a + (if rank c = ACE then 1 else 0))"
  by (cases "rank c") (simp_all add: count_card_def)

lemma face_sum_Cons:
  "face_sum (c # cs) = (if rank c = ACE then 0 else face_value (rank c)) + face_sum cs"
  by (simp add: face_sum_def)

lemma ace_count_Cons: "ace_count (c # cs) = (if rank c = ACE then 1 else 0) + ace_count cs"
  by (simp add: ace_count_def)

lemma fold_count_card:
  "fold count_card cs (b, a) = (b + face_sum cs, a + ace_count cs)"
proof (induction cs arbitrary: b a)
  case Nil
  then show ?case by (simp add: face_sum_def ace_count_def)
next
  case (Cons c cs)
  show ?case
    by (simp add: count_card_step Cons.IH face_sum_Cons ace_count_Cons)
qed

lemma count_hand_eq: "count_hand cs = (face_sum cs, ace_count cs)"
  by (simp add: count_hand_def fold_count_card)

lemma choose_score_reference:
  assumes "set xs = candidate_totals b k"
  shows "choose_score d xs =
     (let C = candidate_totals b k; threshold = (if d then 15 else 16)
      in if \<exists>c \<in> C. threshold \<le> c \<and> c \<le> 21 then Max {c \<in> C. threshold \<le> c \<and> c \<le> 21}
         else if \<exists>c \<in> C. c \<le> 21 then Max {c \<in> C. c \<le> 21}
         else Min C)"
proof -
  have f: "\<And>P. set (filter P xs) = {c \<in> candidate_totals b k. P c}"
    using assms by auto
  have e: "\<And>P. (filter P xs \<noteq> []) = (\<exists>c \<in> candidate_totals b k. P c)"
    using assms by (auto simp: filter_empty_conv)
  show ?thesis
    unfolding choose_score_def Let_def f e assms by simp
qed

text \<open>
  Claim C1. For every hand and both roles, the score \<open>calculate_score\<close> stores is the
  reference score: among the \<open>3 ^ k\<close> totals of the base plus one value of 1, 10, 11 per
  ace, the largest one within the role's threshold (15 for the dealer, 16 for a player) and
  21; failing that the largest one up to 21; failing that the smallest. The list the code
  enumerates has \<open>3 ^ k\<close> entries and exactly the candidate totals as its elements, and
  without aces the score is the face-value sum.
\<close>

theorem calculate_score_reference:
  "Player.score (calculate_score p) = reference_score (hand p) (is_dealer p)
   \<and> set (generate_scores (ace_count (hand p)) (face_sum (hand p)) 0 [])
       = candidate_totals (face_sum (hand p)) (ace_count (hand p))
   \<and> length (generate_scores (ace_count (hand p)) (face_sum (hand p)) 0 [])
       = 3 ^ ace_count (hand p)
   \<and> (ace_count (hand p) = 0 \<longrightarrow> Player.score (calculate_score p) = face_sum (hand p))"
proof -
  let ?b = "face_sum (hand p)" and ?k = "ace_count (hand p)"
  have s: "set (generate_scores ?k ?b 0 []) = candidate_totals ?b ?k"
    using generate_scores_set [of 0 ?k ?b "[]"] by simp
  have l: "length (generate_scores ?k ?b 0 []) = 3 ^ ?k"
    using generate_scores_length [of 0 ?k ?b "[]"] by simp
  have r: "Player.score (calculate_score p) = reference_score (hand p) (is_dealer p)"
    unfolding calculate_score_def count_hand_eq reference_score_def
    using choose_score_reference [OF s, of "is_dealer p"] by simp
  have z: "?k = 0 \<longrightarrow> Player.score (calculate_score p) = ?b"
    unfolding r reference_score_def by (auto simp: candidate_totals_0 Let_def Collect_conv_if)
  from r s l z show ?thesis by blast
qed

theorem calculate_score_reference_witness:
  "ace_count (hand (new_Player ''P'' False\<lparr>hand := [mk_Card CLUBS TEN, mk_Card HEARTS SEVEN]\<rparr>)) = 0
   \<and> Player.score (calculate_score
         (new_Player ''P'' False\<lparr>hand := [mk_Card CLUBS TEN, mk_Card HEARTS SEVEN]\<rparr>)) = 17
   \<and> reference_score [mk_Card SPADES ACE, mk_Card DIAMONDS ACE] False = 21
   \<and> reference_score
         [mk_Card SPADES ACE, mk_Card CLUBS KING, mk_Card CLUBS QUEEN, mk_Card HEARTS FIVE] True = 26"
proof -
  let ?p = "new_Player ''P'' False\<lparr>hand := [mk_Card CLUBS TEN, mk_Card HEARTS SEVEN]\<rparr>"
  let ?q = "new_Player ''Q'' False\<lparr>hand := [mk_Card SPADES ACE, mk_Card DIAMONDS ACE]\<rparr>"
  let ?d = "new_Player ''Dealer'' True
              \<lparr>hand := [mk_Card SPADES ACE, mk_Card CLUBS KING, mk_Card CLUBS QUEEN,
                        mk_Card HEARTS FIVE]\<rparr>"
  have a: "ace_count (hand ?p) = 0" by code_simp
  have f: "face_sum (hand ?p) = 17" by code_simp
  have q: "Player.score (calculate_score ?q) = 21" by code_simp
  have d: "Player.score (calculate_score ?d) = 26" by code_simp
  have hq: "hand ?q = [mk_Card SPADES ACE, mk_Card DIAMONDS ACE]" "is_dealer ?q = False"
    by (simp_all add: new_Player_def)
  have hd: "hand ?d =
      [mk_Card SPADES ACE, mk_Card CLUBS KING, mk_Card CLUBS QUEEN, mk_Card HEARTS FIVE]"
    "is_dealer ?d = True"
    by (simp_all add: new_Player_def)
  from calculate_score_reference [of ?p] a f
  have 1: "Player.score (calculate_score ?p) = 17" by simp
  from calculate_score_reference [of ?q] q hq
  have 2: "reference_score [mk_Card SPADES ACE, mk_Card DIAMONDS ACE] False = 21" by simp
  from calculate_score_reference [of ?d] d hd
  have 3: "reference_score
      [mk_Card SPADES ACE, mk_Card CLUBS KING, mk_Card CLUBS QUEEN, mk_Card HEARTS FIVE] True = 26"
    by simp
  from a 1 2 3 show ?thesis by blast
qed

section \<open>The winner: the code against the priority ladder\<close>

lemma golden_hand_eq: "is_golden_blackjack p = golden_hand p"
  by (simp add: is_golden_blackjack_def golden_hand_def list_all_iff)

lemma blackjack_hand_eq: "is_blackjack p = blackjack_hand p"
  by (simp add: is_blackjack_def blackjack_hand_def)

lemma spirit_hand_eq: "is_spirit p = spirit_hand p"
  by (simp add: is_spirit_def spirit_hand_def)

lemma decide_ladder: "decide p d = verdict_text (ladder p d)"
  unfolding decide_def ladder_def Let_def golden_hand_eq blackjack_hand_eq spirit_hand_eq
  by simp

lemma inj_verdict_text: "inj verdict_text"
proof (rule injI)
  fix a b :: verdict
  assume "verdict_text a = verdict_text b"
  then show "a = b" by (cases a; cases b; simp)
qed

text \<open>
  Claim C2. For every game and every index \<open>evaluate_winner\<close> accepts, the result is the
  text of the first rung of the ladder that matches, read top to bottom: golden blackjack
  (both: draw, player only: player, dealer only: dealer), blackjack (both: draw, dealer
  only: dealer, player only: player), spirit (both: draw, player only: player, dealer only:
  dealer), the player's bust, the dealer's bust, the higher score, the draw; the texts of
  distinct verdicts differ. In particular a player holding both a golden blackjack and a
  blackjack against a dealer holding a blackjack but no golden blackjack wins by the golden
  rung.
\<close>

theorem evaluate_winner_ladder:
  "(py_index (Game.players g) i = Inr p \<longrightarrow>
      evaluate_winner g i = Inr (verdict_text (ladder p (Game.dealer g))))
   \<and> inj verdict_text
   \<and> (py_index (Game.players g) i = Inr p \<and> golden_hand p \<and> blackjack_hand p
        \<and> blackjack_hand (Game.dealer g) \<and> \<not> golden_hand (Game.dealer g) \<longrightarrow>
      evaluate_winner g i = Inr ''Player wins with Golden Blackjack'')"
  by (simp add: evaluate_winner_def decide_ladder inj_verdict_text ladder_def)

theorem evaluate_winner_ladder_witness:
  "py_index
     [add_card (add_card (new_Player ''P'' False) (mk_Card SPADES ACE)) (mk_Card DIAMONDS ACE)] 0
     = Inr (add_card (add_card (new_Player ''P'' False) (mk_Card SPADES ACE)) (mk_Card DIAMONDS ACE))
   \<and> golden_hand
         (add_card (add_card (new_Player ''P'' False) (mk_Card SPADES ACE)) (mk_Card DIAMONDS ACE))
   \<and> blackjack_hand
         (add_card (add_card (new_Player ''P'' False) (mk_Card SPADES ACE)) (mk_Card DIAMONDS ACE))
   \<and> blackjack_hand
         (add_card (add_card (new_Player ''Dealer'' True) (mk_Card CLUBS ACE)) (mk_Card DIAMONDS KING))
   \<and> \<not> golden_hand
         (add_card (add_card (new_Player ''Dealer'' True) (mk_Card CLUBS ACE)) (mk_Card DIAMONDS KING))
   \<and> evaluate_winner
        \<lparr>n_players = 1,
         Game.players =
           [add_card (add_card (new_Player ''P'' False) (mk_Card SPADES ACE)) (mk_Card DIAMONDS ACE)],
         Game.dealer =
           add_card (add_card (new_Player ''Dealer'' True) (mk_Card CLUBS ACE)) (mk_Card DIAMONDS KING),
         deck = []\<rparr> 0
      = Inr ''Player wins with Golden Blackjack''"
proof -
  let ?p = "add_card (add_card (new_Player ''P'' False) (mk_Card SPADES ACE)) (mk_Card DIAMONDS ACE)"
  let ?d = "add_card (add_card (new_Player ''Dealer'' True) (mk_Card CLUBS ACE)) (mk_Card DIAMONDS KING)"
  let ?g = "\<lparr>n_players = 1, Game.players = [?p], Game.dealer = ?d, deck = []\<rparr>"
  have i: "py_index (Game.players ?g) 0 = Inr ?p" by (simp add: py_index_def)
  have pg: "golden_hand ?p" by code_simp
  have pb: "blackjack_hand ?p" by code_simp
  have db: "blackjack_hand (Game.dealer ?g)" by code_simp
  have dg: "\<not> golden_hand (Game.dealer ?g)" by code_simp
  from evaluate_winner_ladder [of ?g 0 ?p] i pg pb db dg
  have "evaluate_winner ?g 0 = Inr ''Player wins with Golden Blackjack''" by blast
  with i pg pb db dg show ?thesis by simp
qed

section \<open>The deck and the initial deal\<close>

lemma full_deck_length: "length full_deck = 52"
  by code_simp

lemma full_deck_distinct: "distinct full_deck"
  by code_simp

lemma random_shuffle_mset: "mset (fst (random_shuffle rs xs)) = mset xs"
proof -
  let ?zs = "zip (map (rs 0) [0 ..< length xs]) xs"
  have z: "map snd ?zs = xs"
    by (simp add: map_snd_zip)
  have "mset (map snd (sort_key fst ?zs)) = mset (map snd ?zs)"
    by (simp only: mset_map mset_sort)
  with z show ?thesis
    by (simp only: random_shuffle_def fst_conv)
qed

lemma create_deck_mset: "mset (fst (create_deck rs)) = mset full_deck"
  by (simp add: create_deck_def random_shuffle_mset)

lemma create_deck_length: "length (fst (create_deck rs)) = 52"
  using create_deck_mset [of rs] full_deck_length by (metis size_mset)

lemma create_deck_distinct: "distinct (fst (create_deck rs))"
  using mset_eq_imp_distinct_iff [OF create_deck_mset [of rs]] full_deck_distinct by simp

lemma hand_add_card [simp]: "hand (add_card p c) = hand p @ [c]"
  by (simp add: add_card_def calculate_score_def split: prod.splits)

lemma is_dealer_add_card [simp]: "is_dealer (add_card p c) = is_dealer p"
  by (simp add: add_card_def calculate_score_def split: prod.splits)

lemma name_add_card [simp]: "Player.name (add_card p c) = Player.name p"
  by (simp add: add_card_def calculate_score_def split: prod.splits)

lemma result_add_card [simp]: "Player.result (add_card p c) = Player.result p"
  by (simp add: add_card_def calculate_score_def split: prod.splits)

text \<open>Drawing from a deck that is not empty.\<close>

lemma draw_card_nonempty:
  "deck g \<noteq> [] \<Longrightarrow> draw_card g rs = (last (deck g), g\<lparr>deck := butlast (deck g)\<rparr>, rs)"
  by (simp add: draw_card_def)

lemma draw_card_frame:
  "draw_card g rs = (c, g1, rs1) \<Longrightarrow>
     Game.players g1 = Game.players g \<and> Game.dealer g1 = Game.dealer g \<and> n_players g1 = n_players g"
  by (auto simp: draw_card_def split: if_splits prod.splits)

lemma rev_butlast_nth: "Suc j < length xs \<Longrightarrow> rev (butlast xs) ! j = rev xs ! Suc j"
  by (cases xs rule: rev_cases) simp_all

lemma last_rev_nth: "xs \<noteq> [] \<Longrightarrow> last xs = rev xs ! 0"
  by (cases xs rule: rev_cases) simp_all

lemma deal_players_effect:
  assumes "length idxs \<le> length (deck g)" "distinct idxs" "\<forall>i \<in> set idxs. i < length (Game.players g)"
    and "deal_players idxs (g, rs) = (g', rs')"
  shows "rs' = rs \<and> Game.dealer g' = Game.dealer g \<and> n_players g' = n_players g
     \<and> deck g' = take (length (deck g) - length idxs) (deck g)
     \<and> length (Game.players g') = length (Game.players g)
     \<and> (\<forall>j < length idxs. Game.players g' ! (idxs ! j)
            = add_card (Game.players g ! (idxs ! j)) (rev (deck g) ! j))
     \<and> (\<forall>i. i \<notin> set idxs \<longrightarrow> Game.players g' ! i = Game.players g ! i)"
  using assms
proof (induction idxs arbitrary: g)
  case Nil
  then show ?case by simp
next
  case (Cons i rest)
  from Cons.prems(1) have ne: "deck g \<noteq> []" by auto
  let ?g2 = "g\<lparr>deck := butlast (deck g),
               Game.players := (Game.players g)[i := add_card (Game.players g ! i) (last (deck g))]\<rparr>"
  from Cons.prems(4) ne have run: "deal_players rest (?g2, rs) = (g', rs')"
    by (simp add: draw_card_nonempty)
  have p1: "length rest \<le> length (deck ?g2)" using Cons.prems(1) by simp
  have p2: "distinct rest" using Cons.prems(2) by simp
  have p3: "\<forall>k \<in> set rest. k < length (Game.players ?g2)" using Cons.prems(3) by simp
  note IH = Cons.IH [OF p1 p2 p3 run]
  have inot: "i \<notin> set rest" using Cons.prems(2) by simp
  have ilt: "i < length (Game.players g)" using Cons.prems(3) by simp
  have d: "deck g' = take (length (deck g) - length (i # rest)) (deck g)"
    using IH Cons.prems(1) by (simp add: butlast_conv_take min_def)
  have nth: "\<forall>j < length (i # rest). Game.players g' ! ((i # rest) ! j)
            = add_card (Game.players g ! ((i # rest) ! j)) (rev (deck g) ! j)"
  proof (intro allI impI)
    fix j assume j: "j < length (i # rest)"
    show "Game.players g' ! ((i # rest) ! j)
            = add_card (Game.players g ! ((i # rest) ! j)) (rev (deck g) ! j)"
    proof (cases j)
      case 0
      with IH inot ilt ne show ?thesis by (simp add: last_rev_nth)
    next
      case (Suc k)
      with j have k: "k < length rest" by simp
      then have "rest ! k \<in> set rest" by simp
      with inot have neq: "rest ! k \<noteq> i" by auto
      from k Cons.prems(1) have "Suc k < length (deck g)" by simp
      then have "rev (butlast (deck g)) ! k = rev (deck g) ! Suc k" by (rule rev_butlast_nth)
      with IH k neq Suc show ?thesis by simp
    qed
  qed
  have other: "\<forall>k. k \<notin> set (i # rest) \<longrightarrow> Game.players g' ! k = Game.players g ! k"
    using IH by simp
  from IH d nth other show ?case by simp
qed

lemma rev_take_deck: "k \<le> length xs \<Longrightarrow> rev (take (length xs - k) xs) = drop k (rev xs)"
  by (simp add: rev_take)

lemma deal_pass_effect:
  assumes "length (Game.players g) + 1 \<le> length (deck g)"
    and "deal_pass (g, rs) = (g', rs')"
  shows "rs' = rs \<and> n_players g' = n_players g
     \<and> deck g' = take (length (deck g) - (length (Game.players g) + 1)) (deck g)
     \<and> length (Game.players g') = length (Game.players g)
     \<and> (\<forall>j < length (Game.players g).
           Game.players g' ! j = add_card (Game.players g ! j) (rev (deck g) ! j))
     \<and> Game.dealer g' = add_card (Game.dealer g) (rev (deck g) ! length (Game.players g))"
proof -
  let ?m = "length (Game.players g)"
  obtain g1 rs1 where dp: "deal_players [0 ..< ?m] (g, rs) = (g1, rs1)"
    by (cases "deal_players [0 ..< ?m] (g, rs)") auto
  from assms(1) have a1: "length [0 ..< ?m] \<le> length (deck g)" by simp
  have a2: "distinct [0 ..< ?m]" by simp
  have a3: "\<forall>i \<in> set [0 ..< ?m]. i < length (Game.players g)" by simp
  note E = deal_players_effect [OF a1 a2 a3 dp]
  from E have d1: "deck g1 = take (length (deck g) - ?m) (deck g)" by simp
  with assms(1) have ne: "deck g1 \<noteq> []" by auto
  from assms(1) have mle: "?m \<le> length (deck g)" by simp
  have r1: "rev (deck g1) = drop ?m (rev (deck g))"
    unfolding d1 using mle by (rule rev_take_deck)
  have lastc: "last (deck g1) = rev (deck g) ! ?m"
    using ne r1 assms(1) by (simp add: last_rev_nth)
  have bl: "butlast (deck g1) = take (length (deck g) - (?m + 1)) (deck g)"
    unfolding d1 by (simp add: butlast_take)
  from assms(2) dp ne
  have g': "g' = g1\<lparr>deck := butlast (deck g1),
                     Game.dealer := add_card (Game.dealer g1) (last (deck g1))\<rparr>"
    and rs': "rs' = rs1"
    by (simp_all add: deal_pass_def draw_card_nonempty)
  have nth: "\<forall>j < ?m. Game.players g' ! j = add_card (Game.players g ! j) (rev (deck g) ! j)"
  proof (intro allI impI)
    fix j assume "j < ?m"
    with E have "Game.players g1 ! ([0 ..< ?m] ! j)
        = add_card (Game.players g ! ([0 ..< ?m] ! j)) (rev (deck g) ! j)"
      by simp
    with \<open>j < ?m\<close> show "Game.players g' ! j = add_card (Game.players g ! j) (rev (deck g) ! j)"
      by (simp add: g')
  qed
  from E g' rs' lastc bl nth show ?thesis by simp
qed

lemma deal_initial_cards_effect:
  assumes "2 * length (Game.players g) + 2 \<le> length (deck g)"
    and "deal_initial_cards g rs = (g', rs')"
  shows "rs' = rs \<and> n_players g' = n_players g
     \<and> deck g' = take (length (deck g) - (2 * length (Game.players g) + 2)) (deck g)
     \<and> length (Game.players g') = length (Game.players g)
     \<and> (\<forall>j < length (Game.players g).
           Game.players g' ! j =
             add_card (add_card (Game.players g ! j) (rev (deck g) ! j))
               (rev (deck g) ! (length (Game.players g) + 1 + j)))
     \<and> Game.dealer g' =
         add_card (add_card (Game.dealer g) (rev (deck g) ! length (Game.players g)))
           (rev (deck g) ! (2 * length (Game.players g) + 1))"
proof -
  let ?m = "length (Game.players g)"
  obtain g1 rs1 where p1: "deal_pass (g, rs) = (g1, rs1)"
    by (cases "deal_pass (g, rs)") auto
  from assms(1) have a: "?m + 1 \<le> length (deck g)" by simp
  note E1 = deal_pass_effect [OF a p1]
  from E1 have m1: "length (Game.players g1) = ?m" by simp
  from E1 have d1: "deck g1 = take (length (deck g) - (?m + 1)) (deck g)" by simp
  from a have r1: "rev (deck g1) = drop (?m + 1) (rev (deck g))"
    unfolding d1 by (rule rev_take_deck)
  from assms(1) d1 m1 have b: "length (Game.players g1) + 1 \<le> length (deck g1)" by simp
  from assms(2) p1 have p2: "deal_pass (g1, rs1) = (g', rs')"
    by (simp add: deal_initial_cards_def)
  note E2 = deal_pass_effect [OF b p2]
  have l1: "length (deck g1) = length (deck g) - (?m + 1)"
    unfolding d1 by simp
  have "deck g' = take (length (deck g1) - (?m + 1)) (deck g1)"
    using E2 m1 by simp
  also have "\<dots> = take (length (deck g) - (?m + 1) - (?m + 1)) (deck g1)"
    by (simp only: l1)
  also have "\<dots> = take (length (deck g) - (?m + 1) - (?m + 1))
      (take (length (deck g) - (?m + 1)) (deck g))"
    by (simp only: d1)
  also have "\<dots> = take (length (deck g) - (2 * ?m + 2)) (deck g)"
  proof -
    have "min (length (deck g) - (?m + 1) - (?m + 1)) (length (deck g) - (?m + 1))
        = length (deck g) - (2 * ?m + 2)"
      by arith
    then show ?thesis
      by (simp only: take_take)
  qed
  finally have dk: "deck g' = take (length (deck g) - (2 * ?m + 2)) (deck g)" .
  have sh: "\<And>j. j \<le> ?m \<Longrightarrow> rev (deck g1) ! j = rev (deck g) ! (?m + 1 + j)"
    unfolding r1 using assms(1) by (simp add: nth_drop)
  have nth: "\<forall>j < ?m. Game.players g' ! j =
      add_card (add_card (Game.players g ! j) (rev (deck g) ! j)) (rev (deck g) ! (?m + 1 + j))"
  proof (intro allI impI)
    fix j assume j: "j < ?m"
    from E2 m1 j have "Game.players g' ! j = add_card (Game.players g1 ! j) (rev (deck g1) ! j)"
      by simp
    moreover from E1 j have "Game.players g1 ! j = add_card (Game.players g ! j) (rev (deck g) ! j)"
      by simp
    moreover from j have "rev (deck g1) ! j = rev (deck g) ! (?m + 1 + j)"
      by (intro sh) simp
    ultimately show "Game.players g' ! j =
      add_card (add_card (Game.players g ! j) (rev (deck g) ! j)) (rev (deck g) ! (?m + 1 + j))"
      by simp
  qed
  have "Game.dealer g' = add_card (Game.dealer g1) (rev (deck g1) ! ?m)"
    using E2 m1 by simp
  moreover have "Game.dealer g1 = add_card (Game.dealer g) (rev (deck g) ! ?m)"
    using E1 by simp
  moreover have "rev (deck g1) ! ?m = rev (deck g) ! (2 * ?m + 1)"
    using sh [of ?m] by (simp add: mult_2)
  ultimately have dl: "Game.dealer g' =
      add_card (add_card (Game.dealer g) (rev (deck g) ! ?m)) (rev (deck g) ! (2 * ?m + 1))"
    by simp
  have fr: "rs' = rs \<and> n_players g' = n_players g
      \<and> length (Game.players g') = length (Game.players g)"
    using E1 E2 by simp
  from fr dk nth dl show ?thesis by blast
qed

lemma Game_init_ok:
  assumes "1 \<le> n" "n \<le> 8"
  shows "Game_init n rs = Inr (\<lparr>n_players = n, Game.players = [],
           Game.dealer = new_Player ''Dealer'' True, deck = fst (create_deck rs)\<rparr>,
           snd (create_deck rs))"
  using assms by (simp add: Game_init_def split: prod.splits)

lemma add_players_effect:
  "Game.players g = [] \<Longrightarrow>
     length (Game.players (add_players g)) = nat (n_players g)
     \<and> (\<forall>i < nat (n_players g). hand (Game.players (add_players g) ! i) = []
           \<and> is_dealer (Game.players (add_players g) ! i) = False)
     \<and> Game.dealer (add_players g) = Game.dealer g \<and> deck (add_players g) = deck g
     \<and> n_players (add_players g) = n_players g"
  by (simp add: add_players_def new_Player_def)

lemma dealt_positions:
  "k \<le> m \<Longrightarrow>
     distinct (concat (map (\<lambda>j. [j, m + 1 + j]) [0 ..< k]))
     \<and> set (concat (map (\<lambda>j. [j, m + 1 + j]) [0 ..< k])) = {0 ..< k} \<union> {m + 1 ..< m + 1 + k}"
proof (induction k)
  case 0
  then show ?case by simp
next
  case (Suc k)
  then have IH: "distinct (concat (map (\<lambda>j. [j, m + 1 + j]) [0 ..< k]))"
    "set (concat (map (\<lambda>j. [j, m + 1 + j]) [0 ..< k])) = {0 ..< k} \<union> {m + 1 ..< m + 1 + k}"
    by simp_all
  from Suc.prems have km: "k < m" by simp
  have d: "distinct (concat (map (\<lambda>j. [j, m + 1 + j]) [0 ..< Suc k]))"
    using IH km by auto
  have s: "set (concat (map (\<lambda>j. [j, m + 1 + j]) [0 ..< Suc k]))
      = {0 ..< Suc k} \<union> {m + 1 ..< m + 1 + Suc k}"
    using IH(2) km by auto
  from d s show ?case by blast
qed

lemma deal_order_distinct: "distinct (deal_order m)"
  using dealt_positions [of m m] by (auto simp: deal_order_def)

lemma deal_order_bound: "i \<in> set (deal_order m) \<Longrightarrow> i < 2 * m + 2"
  using dealt_positions [of m m] by (auto simp: deal_order_def)

lemma deal_order_length: "length (deal_order m) = 2 * m + 2"
  by (simp add: deal_order_def length_concat comp_def sum_list_triv)

lemma dealt_cards_distinct:
  assumes "distinct r" "2 * m + 2 \<le> length r" "length ps = m"
    and "\<forall>j < m. hand (ps ! j) = [r ! j, r ! (m + 1 + j)]"
    and "hand d = [r ! m, r ! (2 * m + 1)]"
  shows "distinct (concat (map hand ps) @ hand d)"
    and "length (concat (map hand ps) @ hand d) = 2 * m + 2"
proof -
  have "map hand ps = map (\<lambda>j. hand (ps ! j)) [0 ..< m]"
    using assms(3) by (simp add: list_eq_iff_nth_eq)
  also have "\<dots> = map (\<lambda>j. [r ! j, r ! (m + 1 + j)]) [0 ..< m]"
    using assms(4) by simp
  also have "\<dots> = map (map (nth r)) (map (\<lambda>j. [j, m + 1 + j]) [0 ..< m])"
    by simp
  finally have "concat (map hand ps) = map (nth r) (concat (map (\<lambda>j. [j, m + 1 + j]) [0 ..< m]))"
    by (simp only: map_concat)
  then have eq: "concat (map hand ps) @ hand d = map (nth r) (deal_order m)"
    using assms(5) by (simp add: deal_order_def)
  have "inj_on (nth r) (set (deal_order m))"
  proof (rule inj_on_nth [OF assms(1)])
    show "\<forall>i \<in> set (deal_order m). i < length r"
      using deal_order_bound [of _ m] assms(2) by fastforce
  qed
  with deal_order_distinct [of m] show "distinct (concat (map hand ps) @ hand d)"
    unfolding eq by (simp add: distinct_map)
  show "length (concat (map hand ps) @ hand d) = 2 * m + 2"
    unfolding eq by (simp add: deal_order_length)
qed

lemma fresh_deal:
  assumes "1 \<le> n" "n \<le> 8"
    and "deal_initial_cards
           (add_players \<lparr>n_players = n, Game.players = [],
              Game.dealer = new_Player ''Dealer'' True, deck = d\<rparr>) rs1 = (g, rs2)"
    and "length d = 52"
  shows "rs2 = rs1 \<and> n_players g = n \<and> length (Game.players g) = nat n
     \<and> deck g = take (52 - (2 * nat n + 2)) d
     \<and> (\<forall>i < nat n. Game.players g ! i =
           add_card (add_card (new_Player (''Player '' @ str_nat (i + 1)) False) (rev d ! i))
             (rev d ! (nat n + 1 + i)))
     \<and> Game.dealer g =
         add_card (add_card (new_Player ''Dealer'' True) (rev d ! nat n)) (rev d ! (2 * nat n + 1))"
proof -
  let ?g0 = "\<lparr>n_players = n, Game.players = [], Game.dealer = new_Player ''Dealer'' True, deck = d\<rparr>"
  have len: "length (Game.players (add_players ?g0)) = nat n"
    by (simp add: add_players_def)
  have dk: "deck (add_players ?g0) = d" and dl: "Game.dealer (add_players ?g0) = new_Player ''Dealer'' True"
    and np: "n_players (add_players ?g0) = n"
    by (simp_all add: add_players_def)
  have pl: "\<forall>i < nat n. Game.players (add_players ?g0) ! i
      = new_Player (''Player '' @ str_nat (i + 1)) False"
    by (simp add: add_players_def)
  have enough: "2 * length (Game.players (add_players ?g0)) + 2 \<le> length (deck (add_players ?g0))"
    using assms(1,2,4) by (simp add: len dk)
  note E = deal_initial_cards_effect [OF enough assms(3)]
  from E pl show ?thesis
    by (simp add: len dk dl np assms(4))
qed

text \<open>
  Claim C6. For every \<open>n\<close> from 1 to 8 and every state of the random generator,
  \<open>Game(n)\<close> succeeds, and after \<open>add_players\<close> and \<open>deal_initial_cards\<close> there are
  \<open>n\<close> players, every player and the dealer hold exactly two cards, and the \<open>2n + 2\<close>
  cards dealt are pairwise distinct. The cards leave the fresh deck from its end, so the
  \<open>k\<close>-th card drawn is the \<open>k\<close>-th card of the reversed deck: player \<open>i\<close> holds draws
  \<open>i\<close> and \<open>n + 1 + i\<close>, the dealer draws \<open>n\<close> and \<open>2n + 1\<close>, which is two passes, each over
  the players in index order and then the dealer.
\<close>

theorem deal_initial_cards_two_each:
  assumes "1 \<le> n" and "n \<le> 8"
  shows "\<exists>g0 rs1 g rs2.
     Game_init n rs = Inr (g0, rs1)
     \<and> deal_initial_cards (add_players g0) rs1 = (g, rs2)
     \<and> length (Game.players g) = nat n
     \<and> (\<forall>i < nat n. length (hand (Game.players g ! i)) = 2)
     \<and> length (hand (Game.dealer g)) = 2
     \<and> distinct (concat (map hand (Game.players g)) @ hand (Game.dealer g))
     \<and> length (concat (map hand (Game.players g)) @ hand (Game.dealer g)) = 2 * nat n + 2
     \<and> (\<forall>i < nat n. hand (Game.players g ! i)
            = [rev (deck g0) ! i, rev (deck g0) ! (nat n + 1 + i)])
     \<and> hand (Game.dealer g) = [rev (deck g0) ! nat n, rev (deck g0) ! (2 * nat n + 1)]"
proof -
  let ?d = "fst (create_deck rs)"
  let ?g0 = "\<lparr>n_players = n, Game.players = [], Game.dealer = new_Player ''Dealer'' True,
              deck = ?d\<rparr>"
  let ?rs1 = "snd (create_deck rs)"
  let ?m = "nat n"
  obtain g rs2 where run: "deal_initial_cards (add_players ?g0) ?rs1 = (g, rs2)"
    by (cases "deal_initial_cards (add_players ?g0) ?rs1") auto
  note F = fresh_deal [OF assms run create_deck_length]
  have init: "Game_init n rs = Inr (?g0, ?rs1)"
    using assms by (rule Game_init_ok)
  from F have len: "length (Game.players g) = ?m" by simp
  have hands: "\<forall>i < ?m. hand (Game.players g ! i) = [rev ?d ! i, rev ?d ! (?m + 1 + i)]"
    using F by (simp add: new_Player_def)
  have dh: "hand (Game.dealer g) = [rev ?d ! ?m, rev ?d ! (2 * ?m + 1)]"
    using F by (simp add: new_Player_def)
  have small: "2 * ?m + 2 \<le> length (rev ?d)"
    using assms by (simp add: create_deck_length)
  have dr: "distinct (rev ?d)"
    using create_deck_distinct [of rs] by simp
  note D = dealt_cards_distinct [OF dr small len hands dh]
  have two: "\<forall>i < ?m. length (hand (Game.players g ! i)) = 2"
    using hands by simp
  have dtwo: "length (hand (Game.dealer g)) = 2"
    using dh by simp
  have dk0: "deck ?g0 = ?d" by simp
  show ?thesis
    apply (rule exI [of _ ?g0], rule exI [of _ ?rs1], rule exI [of _ g], rule exI [of _ rs2])
    unfolding dk0
    using init run len two dtwo D hands dh by blast
qed

theorem deal_initial_cards_two_each_witness:
  "(1::int) \<le> 2 \<and> (2::int) \<le> 8 \<and>
   (\<exists>g0 rs1 g rs2.
     Game_init 2 (\<lambda>i k. k) = Inr (g0, rs1)
     \<and> deal_initial_cards (add_players g0) rs1 = (g, rs2)
     \<and> length (Game.players g) = 2
     \<and> distinct (concat (map hand (Game.players g)) @ hand (Game.dealer g))
     \<and> length (concat (map hand (Game.players g)) @ hand (Game.dealer g)) = 6)"
proof -
  have a: "(1::int) \<le> 2" and b: "(2::int) \<le> 8" by simp_all
  from deal_initial_cards_two_each [OF a b, of "\<lambda>i k. k"] show ?thesis
    by (simp del: distinct_append) blast
qed

section \<open>Creating rooms\<close>

lemma create_room_rooms:
  "create_room w nm maxp = ((rid, pid), w1) \<Longrightarrow>
     rid = fst (new_room_id w) \<and> (\<exists>room. rooms w1 = (rooms w)(rid \<mapsto> room))"
  by (auto simp: create_room_def Let_def new_room_id_def new_player_id_def uuid4_hex_def
      split: prod.splits)

text \<open>
  Claim C8, as stated, fails: \<open>create_room\<close> truncates a UUID to six hexadecimal digits and
  stores the room under that key without looking the key up first. When two calls generate
  the same six digits, both return the same room identifier and the second room replaces
  the first.
\<close>

theorem create_room_collision:
  "fst (fst (create_room collision_world ''ann'' 2))
     = fst (fst (create_room (snd (create_room collision_world ''ann'' 2)) ''bob'' 2))
   \<and> rooms (snd (create_room collision_world ''ann'' 2)) ''ABCDEF'' \<noteq> None
   \<and> rooms (snd (create_room (snd (create_room collision_world ''ann'' 2)) ''bob'' 2)) ''ABCDEF''
       \<noteq> rooms (snd (create_room collision_world ''ann'' 2)) ''ABCDEF''"
  by code_simp

text \<open>
  Claim C8, amended. For every sequence of \<open>create_room\<close> calls in which the room
  identifier generated for each call is absent from the room table at the time of that
  call, the returned room identifiers are pairwise distinct and new to the table, the table
  afterwards holds exactly the rooms it held before and one room per call, and every room
  it held before is unchanged.
\<close>

theorem create_rooms_fresh:
  assumes "fresh_room_ids w reqs" and "create_rooms w reqs = (ids, w')"
  shows "length ids = length reqs
     \<and> distinct (map fst ids)
     \<and> set (map fst ids) \<inter> dom (rooms w) = {}
     \<and> dom (rooms w') = dom (rooms w) \<union> set (map fst ids)
     \<and> (\<forall>r \<in> dom (rooms w). rooms w' r = rooms w r)"
  using assms
proof (induction reqs arbitrary: w ids w')
  case Nil
  then show ?case by auto
next
  case (Cons req reqs)
  obtain nm maxp where req: "req = (nm, maxp)" by (cases req)
  obtain rid pid w1 where c: "create_room w nm maxp = ((rid, pid), w1)"
    by (cases "create_room w nm maxp") auto
  obtain rest w2 where r: "create_rooms w1 reqs = (rest, w2)"
    by (cases "create_rooms w1 reqs") auto
  from Cons.prems(2) req c r have ids: "ids = (rid, pid) # rest" and w': "w' = w2"
    by simp_all
  from create_room_rooms [OF c] obtain room where
    rid: "rid = fst (new_room_id w)" and upd: "rooms w1 = (rooms w)(rid \<mapsto> room)"
    by blast
  from Cons.prems(1) req c rid have fresh: "rooms w rid = None" and f1: "fresh_room_ids w1 reqs"
    by simp_all
  note IH = Cons.IH [OF f1 r]
  have d1: "dom (rooms w1) = insert rid (dom (rooms w))"
    by (simp add: upd)
  from fresh have notin: "rid \<notin> dom (rooms w)" by (simp add: domIff)
  from IH d1 have nr: "rid \<notin> set (map fst rest)" by auto
  have 1: "length ids = length (req # reqs)" using IH ids by simp
  have 2: "distinct (map fst ids)" using IH nr ids by simp
  have 3: "set (map fst ids) \<inter> dom (rooms w) = {}" using IH d1 notin ids by auto
  have 4: "dom (rooms w') = dom (rooms w) \<union> set (map fst ids)" using IH d1 ids w' by auto
  have 5: "\<forall>r \<in> dom (rooms w). rooms w' r = rooms w r"
  proof
    fix r assume rd: "r \<in> dom (rooms w)"
    with notin have "r \<noteq> rid" by auto
    moreover from rd d1 have "r \<in> dom (rooms w1)" by simp
    with IH have "rooms w2 r = rooms w1 r" by blast
    ultimately show "rooms w' r = rooms w r" using w' upd by simp
  qed
  from 1 2 3 4 5 show ?case by blast
qed

theorem create_rooms_fresh_witness:
  "fresh_room_ids plain_world [(''ann'', 2), (''bob'', 3)]
   \<and> map fst (fst (create_rooms plain_world [(''ann'', 2), (''bob'', 3)])) = [''ABCDEF'', ''FEDCBA'']
   \<and> distinct (map fst (fst (create_rooms plain_world [(''ann'', 2), (''bob'', 3)])))
   \<and> dom (rooms (snd (create_rooms plain_world [(''ann'', 2), (''bob'', 3)])))
       = dom (rooms plain_world)
          \<union> set (map fst (fst (create_rooms plain_world [(''ann'', 2), (''bob'', 3)])))"
proof -
  let ?reqs = "[(''ann'', 2), (''bob'', 3)]"
  have f: "fresh_room_ids plain_world ?reqs" by code_simp
  have i: "map fst (fst (create_rooms plain_world ?reqs)) = [''ABCDEF'', ''FEDCBA'']" by code_simp
  have c: "create_rooms plain_world ?reqs
      = (fst (create_rooms plain_world ?reqs), snd (create_rooms plain_world ?reqs))"
    by simp
  from create_rooms_fresh [OF f c] f i show ?thesis by blast
qed

section \<open>The state projection\<close>

lemma player_entries_ok:
  "\<forall>i \<in> set idxs. i < length (Game.players g) \<Longrightarrow>
     player_entries room g idxs = Inr (map (\<lambda>i. player_entry room (Game.players g ! i) i) idxs)"
  by (induction idxs) simp_all

lemma player_entries_Inr:
  "player_entries room g idxs = Inr vs \<Longrightarrow>
     vs = map (\<lambda>i. player_entry room (Game.players g ! i) i) idxs"
  by (induction idxs arbitrary: vs) (auto split: if_splits sum.splits)

lemma hidden_card_entry [simp]: "hidden (card_entry hide c) = hide"
  by (simp add: card_entry_def)

text \<open>
  Claim C9. For every room whose phase is not waiting and every viewer, the response of
  \<open>get_state\<close> has one entry per seat; the score of a seat is \<open>"?"\<close>, and each card of
  its entry is hidden, if and only if the phase is \<open>player_turns\<close> and the seat is neither
  the current turn index nor resolved; the dealer's score is \<open>"?"\<close>, and each dealer card
  hidden, if and only if the phase is \<open>player_turns\<close>. The entries have as many cards as
  the hands, and \<open>get_state\<close> returns whenever the room has a game with a player for
  every seat.
\<close>

theorem get_state_hiding:
  assumes "rooms w rid = Some room" and "Room.phase room \<noteq> Waiting"
  shows "(\<forall>g. game room = Some g \<and> length (seats room) \<le> length (Game.players g) \<longrightarrow>
            (\<exists>resp. get_state w rid viewer = Inr resp))
     \<and> (\<forall>resp. get_state w rid viewer = Inr resp \<longrightarrow>
          length (RoomStateResponse.players resp) = length (seats room)
          \<and> (\<forall>i < length (seats room).
                (player_view.score (RoomStateResponse.players resp ! i) = QuestionMark
                   \<longleftrightarrow> Room.phase room = PlayerTurns \<and> int i \<noteq> Room.current_player_index room
                        \<and> \<not> PlayerSeat.resolved (seats room ! i))
                \<and> (\<forall>c \<in> set (player_view.cards (RoomStateResponse.players resp ! i)).
                      hidden c
                      \<longleftrightarrow> Room.phase room = PlayerTurns \<and> int i \<noteq> Room.current_player_index room
                           \<and> \<not> PlayerSeat.resolved (seats room ! i)))
          \<and> (dealer_view.score (RoomStateResponse.dealer resp) = QuestionMark
                \<longleftrightarrow> Room.phase room = PlayerTurns)
          \<and> (\<forall>c \<in> set (dealer_view.cards (RoomStateResponse.dealer resp)).
                hidden c \<longleftrightarrow> Room.phase room = PlayerTurns)
          \<and> (\<forall>g. game room = Some g \<longrightarrow>
                length (dealer_view.cards (RoomStateResponse.dealer resp))
                  = length (hand (Game.dealer g))
                \<and> (\<forall>i < length (seats room).
                      length (player_view.cards (RoomStateResponse.players resp ! i))
                        = length (hand (Game.players g ! i)))))"
proof -
  let ?hide = "\<lambda>i. Room.phase room = PlayerTurns \<and> int i \<noteq> Room.current_player_index room
                 \<and> \<not> PlayerSeat.resolved (seats room ! i)"
  have A: "\<forall>g. game room = Some g \<and> length (seats room) \<le> length (Game.players g) \<longrightarrow>
            (\<exists>resp. get_state w rid viewer = Inr resp)"
  proof (intro allI impI)
    fix g assume g: "game room = Some g \<and> length (seats room) \<le> length (Game.players g)"
    then have "\<forall>i \<in> set [0 ..< length (seats room)]. i < length (Game.players g)" by auto
    from player_entries_ok [OF this, of room] g assms
    show "\<exists>resp. get_state w rid viewer = Inr resp"
      by (simp add: get_state_def Let_def)
  qed
  have B: "length (RoomStateResponse.players resp) = length (seats room)
     \<and> (\<forall>i < length (seats room).
           (player_view.score (RoomStateResponse.players resp ! i) = QuestionMark \<longleftrightarrow> ?hide i)
           \<and> (\<forall>c \<in> set (player_view.cards (RoomStateResponse.players resp ! i)).
                 hidden c \<longleftrightarrow> ?hide i))
     \<and> (dealer_view.score (RoomStateResponse.dealer resp) = QuestionMark
           \<longleftrightarrow> Room.phase room = PlayerTurns)
     \<and> (\<forall>c \<in> set (dealer_view.cards (RoomStateResponse.dealer resp)).
           hidden c \<longleftrightarrow> Room.phase room = PlayerTurns)
     \<and> (\<forall>g. game room = Some g \<longrightarrow>
           length (dealer_view.cards (RoomStateResponse.dealer resp))
             = length (hand (Game.dealer g))
           \<and> (\<forall>i < length (seats room).
                 length (player_view.cards (RoomStateResponse.players resp ! i))
                   = length (hand (Game.players g ! i))))"
    if r: "get_state w rid viewer = Inr resp" for resp
  proof -
    from r assms obtain g vs where g: "game room = Some g"
      and pe: "player_entries room g [0 ..< length (seats room)] = Inr vs"
      by (auto simp: get_state_def Let_def split: option.splits sum.splits)
    from player_entries_Inr [OF pe]
    have vs: "vs = map (\<lambda>i. player_entry room (Game.players g ! i) i) [0 ..< length (seats room)]" .
    from r assms g pe have pl: "RoomStateResponse.players resp = vs"
      and dl: "RoomStateResponse.dealer resp =
        \<lparr>dealer_view.score = (if Room.phase room = PlayerTurns then QuestionMark
                               else ScoreOf (Player.score (Game.dealer g))),
         dealer_view.cards = map (card_entry (Room.phase room = PlayerTurns)) (hand (Game.dealer g))\<rparr>"
      by (auto simp: get_state_def Let_def)
    have 1: "length (RoomStateResponse.players resp) = length (seats room)"
      by (simp add: pl vs)
    have 2: "\<forall>i < length (seats room).
           (player_view.score (RoomStateResponse.players resp ! i) = QuestionMark \<longleftrightarrow> ?hide i)
           \<and> (\<forall>c \<in> set (player_view.cards (RoomStateResponse.players resp ! i)).
                 hidden c \<longleftrightarrow> ?hide i)"
      by (auto simp: pl vs player_entry_def seat_hidden_def Let_def)
    have 3: "dealer_view.score (RoomStateResponse.dealer resp) = QuestionMark
          \<longleftrightarrow> Room.phase room = PlayerTurns"
      by (simp add: dl)
    have 4: "\<forall>c \<in> set (dealer_view.cards (RoomStateResponse.dealer resp)).
          hidden c \<longleftrightarrow> Room.phase room = PlayerTurns"
      by (auto simp: dl)
    have 5: "\<forall>g. game room = Some g \<longrightarrow>
           length (dealer_view.cards (RoomStateResponse.dealer resp))
             = length (hand (Game.dealer g))
           \<and> (\<forall>i < length (seats room).
                 length (player_view.cards (RoomStateResponse.players resp ! i))
                   = length (hand (Game.players g ! i)))"
      using g by (simp add: dl pl vs player_entry_def Let_def)
    from 1 2 3 4 5 show ?thesis by blast
  qed
  from A B show ?thesis by blast
qed

theorem get_state_hiding_witness:
  "rooms demo_playing ''ABCDEF'' = Some (the (rooms demo_playing ''ABCDEF''))
   \<and> Room.phase (the (rooms demo_playing ''ABCDEF'')) = PlayerTurns
   \<and> Room.current_player_index (the (rooms demo_playing ''ABCDEF'')) = 0
   \<and> (\<exists>resp. get_state demo_playing ''ABCDEF'' None = Inr resp
         \<and> player_view.score (RoomStateResponse.players resp ! 0) \<noteq> QuestionMark
         \<and> player_view.score (RoomStateResponse.players resp ! 1) = QuestionMark
         \<and> dealer_view.score (RoomStateResponse.dealer resp) = QuestionMark)"
proof -
  let ?room = "the (rooms demo_playing ''ABCDEF'')"
  have r: "rooms demo_playing ''ABCDEF'' = Some ?room" by code_simp
  have p: "Room.phase ?room = PlayerTurns" by code_simp
  have c: "Room.current_player_index ?room = 0" by code_simp
  have n: "length (seats ?room) = 2" by code_simp
  have s: "\<not> PlayerSeat.resolved (seats ?room ! 1)" by code_simp
  have g: "game ?room = Some (the (game ?room))
      \<and> length (seats ?room) \<le> length (Game.players (the (game ?room)))"
    by code_simp
  from p have w: "Room.phase ?room \<noteq> Waiting" by simp
  note T = get_state_hiding [OF r w, of None]
  from T g obtain resp where resp: "get_state demo_playing ''ABCDEF'' None = Inr resp"
    by blast
  from T resp n have
    0: "player_view.score (RoomStateResponse.players resp ! 0) = QuestionMark
        \<longleftrightarrow> Room.phase ?room = PlayerTurns \<and> int 0 \<noteq> Room.current_player_index ?room
             \<and> \<not> PlayerSeat.resolved (seats ?room ! 0)"
    and 1: "player_view.score (RoomStateResponse.players resp ! 1) = QuestionMark
        \<longleftrightarrow> Room.phase ?room = PlayerTurns \<and> int 1 \<noteq> Room.current_player_index ?room
             \<and> \<not> PlayerSeat.resolved (seats ?room ! 1)"
    and d: "dealer_view.score (RoomStateResponse.dealer resp) = QuestionMark
        \<longleftrightarrow> Room.phase ?room = PlayerTurns"
    by simp_all
  from 0 1 d p c s resp r show ?thesis by auto
qed

end
